theory Spec2Isabelle
  imports Complex_Main
begin

section \<open>Emotion classifier fine-tuning script: data model\<close>

text \<open>
  The development follows \<^verbatim>\<open>code/classifier/fine-tuning.py\<close>. A cell of the input CSV,
  as pandas hands it to the script, is either a text or the missing value (NaN). A data
  frame is the list of its rows together with the optional \<^verbatim>\<open>labels\<close> column that
  \<^verbatim>\<open>load_data\<close> adds in multiclass mode.
\<close>

datatype cell = Str string | NA

record row =
  sentence :: cell
  emotion_A :: cell
  emotion_B :: cell

record dataframe =
  rows :: "row list"
  labels_col :: "nat list option"

text \<open>Python exceptions are values; every raise of the script is a branch returning one.\<close>

datatype error = KeyError | TypeError | IndexError | ValueError | OSError

definition bind_err :: "error + 'a \<Rightarrow> ('a \<Rightarrow> error + 'b) \<Rightarrow> error + 'b" where
  "bind_err m f = (case m of Inl e \<Rightarrow> Inl e | Inr x \<Rightarrow> f x)"

subsection \<open>The label maps\<close>

text \<open>Dictionaries keep insertion order, so they are association lists.\<close>

definition MULTICLASS_LABEL_MAP :: "(string \<times> nat) list" where
  "MULTICLASS_LABEL_MAP =
     [(''Joy'', 0), (''Sadness'', 1), (''Anger'', 2), (''Fear'', 3), (''Trust'', 4),
      (''Disgust'', 5), (''Surprise'', 6), (''Anticipation'', 7), (''Neutral'', 8)]"

definition BINARY_LABEL_MAP :: "(string \<times> nat) list" where
  "BINARY_LABEL_MAP = [(''Positive'', 1), (''Negative'', 0)]"

definition dict_keys :: "('k \<times> 'v) list \<Rightarrow> 'k list" where
  "dict_keys d = map fst d"

text \<open>
  \<^verbatim>\<open>d[k]\<close> for a dictionary with text keys: a missing key raises \<^verbatim>\<open>KeyError\<close>, and so
  does the missing value NaN, which is hashable and equal to no key.
\<close>

fun dict_get :: "(string \<times> 'v) list \<Rightarrow> cell \<Rightarrow> error + 'v" where
  "dict_get d NA = Inl KeyError"
| "dict_get d (Str k) = (case map_of d k of None \<Rightarrow> Inl KeyError | Some v \<Rightarrow> Inr v)"

fun notna :: "cell \<Rightarrow> bool" where
  "notna NA = False"
| "notna (Str s) = True"

subsection \<open>\<^verbatim>\<open>load_data\<close>\<close>

text \<open>
  Multiclass mode, first \<^verbatim>\<open>apply\<close> (line 42): the row's two emotion cells are looked up
  in the label map, the second one only when it is present.
\<close>

definition label_list :: "row \<Rightarrow> error + nat list" where
  "label_list x =
     (if notna (emotion_B x)
      then bind_err (dict_get MULTICLASS_LABEL_MAP (emotion_A x)) (\<lambda>a.
           bind_err (dict_get MULTICLASS_LABEL_MAP (emotion_B x)) (\<lambda>b. Inr [a, b]))
      else bind_err (dict_get MULTICLASS_LABEL_MAP (emotion_A x)) (\<lambda>a. Inr [a]))"

text \<open>Second \<^verbatim>\<open>apply\<close> (line 45): \<^verbatim>\<open>x[0]\<close> of the list.\<close>

fun first :: "'a list \<Rightarrow> error + 'a" where
  "first [] = Inl IndexError"
| "first (x # xs) = Inr x"

text \<open>
  \<^verbatim>\<open>apply\<close> runs the function on each row in order; the first exception ends it. (On a
  frame without rows pandas does not call the function at all; no statement below rests
  on what \<^verbatim>\<open>load_data\<close> does with such a frame.)
\<close>

fun apply_rows :: "('a \<Rightarrow> error + 'b) \<Rightarrow> 'a list \<Rightarrow> error + 'b list" where
  "apply_rows f [] = Inr []"
| "apply_rows f (x # xs) =
     bind_err (f x) (\<lambda>y. bind_err (apply_rows f xs) (\<lambda>ys. Inr (y # ys)))"

text \<open>
  Binary mode (lines 47--52): \<^verbatim>\<open>binary_labels[emotion].append(v)\<close> on the dictionary of
  label lists.
\<close>

type_synonym binary_labels = "(string \<times> nat list) list"

definition dict_append :: "binary_labels \<Rightarrow> string \<Rightarrow> nat \<Rightarrow> error + binary_labels" where
  "dict_append d k v =
     (if k \<in> set (dict_keys d)
      then Inr (map (\<lambda>(k', vs). if k' = k then (k', vs @ [v]) else (k', vs)) d)
      else Inl KeyError)"

definition binary_label :: "row \<Rightarrow> string \<Rightarrow> error + nat" where
  "binary_label r emotion =
     (if Str emotion \<in> set [emotion_A r, emotion_B r]
      then dict_get BINARY_LABEL_MAP (Str ''Positive'')
      else dict_get BINARY_LABEL_MAP (Str ''Negative''))"

fun label_row :: "row \<Rightarrow> string list \<Rightarrow> binary_labels \<Rightarrow> error + binary_labels" where
  "label_row r [] d = Inr d"
| "label_row r (emotion # es) d =
     bind_err (binary_label r emotion) (\<lambda>v.
     bind_err (dict_append d emotion v) (label_row r es))"

fun label_rows :: "row list \<Rightarrow> binary_labels \<Rightarrow> error + binary_labels" where
  "label_rows [] d = Inr d"
| "label_rows (r # rs) d =
     bind_err (label_row r (dict_keys MULTICLASS_LABEL_MAP) d) (label_rows rs)"

text \<open>
  \<^verbatim>\<open>load_data\<close> returns the frame in multiclass mode and the pair of the frame and the
  dictionary of binary label lists in binary mode: two different shapes of result.
\<close>

datatype load_result = Frame dataframe | FrameAndLabels dataframe binary_labels

text \<open>
  \<^verbatim>\<open>pd.read_csv\<close> is the environment's: \<open>read_csv\<close> maps a path to the frame read
  from it, or to the error raised.
\<close>

definition load_data ::
  "(string \<Rightarrow> error + dataframe) \<Rightarrow> string \<Rightarrow> bool \<Rightarrow> error + load_result" where
  "load_data read_csv input_csv multiclass =
     bind_err (read_csv input_csv) (\<lambda>df.
       if multiclass
       then bind_err (apply_rows label_list (rows df)) (\<lambda>lists.
            bind_err (apply_rows first lists) (\<lambda>ls.
            Inr (Frame (df\<lparr>labels_col := Some ls\<rparr>))))
       else bind_err (label_rows (rows df)
                        (map (\<lambda>emotion. (emotion, [])) (dict_keys MULTICLASS_LABEL_MAP)))
              (\<lambda>binary_labels. Inr (FrameAndLabels df binary_labels)))"

subsection \<open>\<^verbatim>\<open>display_emotion_counts\<close>\<close>

text \<open>
  The function indexes its argument with a list of column names
  (\<^verbatim>\<open>df[['emotion-A', 'emotion-B']]\<close>). A frame supports that; the pair of binary mode
  is a tuple, whose indices must be integers or slices, so the indexing raises
  \<^verbatim>\<open>TypeError\<close>. The counts are only logged, hence no value is returned.
\<close>

fun display_emotion_counts :: "load_result \<Rightarrow> error + unit" where
  "display_emotion_counts (Frame df) = Inr ()"
| "display_emotion_counts (FrameAndLabels df binary_labels) = Inl TypeError"

text \<open>\<^verbatim>\<open>df['sentence']\<close> and \<^verbatim>\<open>df['labels']\<close> of \<^verbatim>\<open>main\<close>.\<close>

fun column_sentence :: "load_result \<Rightarrow> error + cell list" where
  "column_sentence (Frame df) = Inr (map sentence (rows df))"
| "column_sentence (FrameAndLabels df binary_labels) = Inl TypeError"

fun column_labels :: "load_result \<Rightarrow> error + nat list" where
  "column_labels (Frame df) = (case labels_col df of None \<Rightarrow> Inl KeyError | Some ls \<Rightarrow> Inr ls)"
| "column_labels (FrameAndLabels df binary_labels) = Inl TypeError"

subsection \<open>\<^verbatim>\<open>preprocess_data\<close>\<close>

text \<open>
  The tokenizer's output maps each key (\<^verbatim>\<open>input_ids\<close>, \<^verbatim>\<open>attention_mask\<close>, ...) to one
  list of integers per text. The tokenizer itself is a parameter: it receives the texts
  and the three keyword arguments the script passes.
\<close>

type_synonym encodings = "(string \<times> int list list) list"

type_synonym 'tok tokenizer_call = "'tok \<Rightarrow> cell list \<Rightarrow> bool \<Rightarrow> bool \<Rightarrow> nat \<Rightarrow> error + encodings"

definition preprocess_data ::
  "'tok tokenizer_call \<Rightarrow> cell list \<Rightarrow> 'l \<Rightarrow> 'tok \<Rightarrow> error + encodings \<times> 'l" where
  "preprocess_data call texts labels tokenizer =
     bind_err (call tokenizer texts True True 128) (\<lambda>encodings. Inr (encodings, labels))"

subsection \<open>\<^verbatim>\<open>compute_metrics\<close>\<close>

record ('s, 'v) metrics =
  accuracy :: 's
  precision :: 'v
  recall :: 'v
  f1 :: 'v

text \<open>
  \<^verbatim>\<open>ndarray.argmax\<close> along a row: a linear scan that keeps the first position of the
  largest score; an empty row raises \<^verbatim>\<open>ValueError\<close>.
\<close>

fun argmax_scan :: "real list \<Rightarrow> nat \<Rightarrow> real \<Rightarrow> nat \<Rightarrow> nat" where
  "argmax_scan [] i best best_i = best_i"
| "argmax_scan (x # xs) i best best_i =
     (if best < x then argmax_scan xs (Suc i) x i else argmax_scan xs (Suc i) best best_i)"

fun argmax :: "real list \<Rightarrow> error + nat" where
  "argmax [] = Inl ValueError"
| "argmax (x # xs) = Inr (argmax_scan xs 1 x 0)"

text \<open>
  scikit-learn's \<^verbatim>\<open>accuracy_score\<close> and \<^verbatim>\<open>precision_recall_fscore_support\<close> with
  \<^verbatim>\<open>average=None\<close>, as their documentation defines them, in exact arithmetic (the
  script's floats are read as the reals they stand for). Both refuse label and
  prediction arrays of different lengths with \<^verbatim>\<open>ValueError\<close>. What they do on an empty
  batch is not modelled: the functions below answer \<^verbatim>\<open>ValueError\<close> there, and nothing
  proved in this theory is about that case.

  The classes are the sorted distinct values of labels and predictions together. For a
  class \<open>c\<close>, precision is the share of the predictions of \<open>c\<close> that are right, recall the
  share of the samples labelled \<open>c\<close> that are predicted \<open>c\<close>, and a ratio with denominator
  zero is reported as 0.
\<close>

definition accuracy_score :: "nat list \<Rightarrow> nat list \<Rightarrow> error + real" where
  "accuracy_score y_true y_pred =
     (if length y_true \<noteq> length y_pred \<or> y_true = [] then Inl ValueError
      else Inr (real (length (filter (\<lambda>(t, p). t = p) (zip y_true y_pred)))
                / real (length y_true)))"

definition classes_of :: "nat list \<Rightarrow> nat list \<Rightarrow> nat list" where
  "classes_of y_true y_pred = sort (remdups (y_true @ y_pred))"

definition ratio :: "nat \<Rightarrow> nat \<Rightarrow> real" where
  "ratio n d = (if d = 0 then 0 else real n / real d)"

definition true_positives :: "nat list \<Rightarrow> nat list \<Rightarrow> nat \<Rightarrow> nat" where
  "true_positives y_true y_pred c =
     length (filter (\<lambda>(t, p). t = c \<and> p = c) (zip y_true y_pred))"

definition class_precision :: "nat list \<Rightarrow> nat list \<Rightarrow> nat \<Rightarrow> real" where
  "class_precision y_true y_pred c =
     ratio (true_positives y_true y_pred c) (count_list y_pred c)"

definition class_recall :: "nat list \<Rightarrow> nat list \<Rightarrow> nat \<Rightarrow> real" where
  "class_recall y_true y_pred c =
     ratio (true_positives y_true y_pred c) (count_list y_true c)"

definition class_f1 :: "nat list \<Rightarrow> nat list \<Rightarrow> nat \<Rightarrow> real" where
  "class_f1 y_true y_pred c =
     (let p = class_precision y_true y_pred c; r = class_recall y_true y_pred c
      in if p + r = 0 then 0 else 2 * p * r / (p + r))"

definition precision_recall_fscore_support ::
  "nat list \<Rightarrow> nat list \<Rightarrow> error + real list \<times> real list \<times> real list \<times> nat list" where
  "precision_recall_fscore_support y_true y_pred =
     (if length y_true \<noteq> length y_pred \<or> y_true = [] then Inl ValueError
      else let cs = classes_of y_true y_pred
           in Inr (map (class_precision y_true y_pred) cs,
                   map (class_recall y_true y_pred) cs,
                   map (class_f1 y_true y_pred) cs,
                   map (count_list y_true) cs))"

definition compute_metrics ::
  "real list list \<times> nat list \<Rightarrow> error + (real, real list) metrics" where
  "compute_metrics predictions =
     (case predictions of (preds, labels) \<Rightarrow>
        bind_err (apply_rows argmax preds) (\<lambda>preds.
        bind_err (accuracy_score labels preds) (\<lambda>acc.
        bind_err (precision_recall_fscore_support labels preds) (\<lambda>(p, r, f, support).
        Inr \<lparr>accuracy = acc, precision = p, recall = r, f1 = f\<rparr>))))"

subsection \<open>\<^verbatim>\<open>aggregate_metrics\<close>\<close>

text \<open>
  What \<^verbatim>\<open>trainer.evaluate()\<close> returns for a fold: the keys of \<^verbatim>\<open>compute_metrics\<close> under
  the prefix \<^verbatim>\<open>eval_\<close> (its other keys, such as the loss, are read nowhere in the script).
\<close>

record eval_metrics =
  eval_accuracy :: real
  eval_precision :: "real list"
  eval_recall :: "real list"
  eval_f1 :: "real list"

text \<open>
  \<^verbatim>\<open>np.mean\<close>: the sum divided by the count, again in exact arithmetic. The mean of no
  values is NaN, and NaN propagates through sums.
\<close>

datatype float64 = NaN | Fin real

fun np_add :: "float64 \<Rightarrow> float64 \<Rightarrow> float64" where
  "np_add (Fin a) (Fin b) = Fin (a + b)"
| "np_add a b = NaN"

fun np_divide :: "float64 \<Rightarrow> nat \<Rightarrow> float64" where
  "np_divide NaN n = NaN"
| "np_divide (Fin a) n = (if n = 0 then NaN else Fin (a / real n))"

definition np_mean :: "float64 list \<Rightarrow> float64" where
  "np_mean xs = np_divide (foldl np_add (Fin 0) xs) (length xs)"

definition aggregate_metrics :: "eval_metrics list \<Rightarrow> (float64, float64) metrics" where
  "aggregate_metrics fold_metrics =
     \<lparr>accuracy = np_mean (map (\<lambda>metrics. Fin (eval_accuracy metrics)) fold_metrics),
      precision = np_mean (map (\<lambda>metrics. np_mean (map Fin (eval_precision metrics))) fold_metrics),
      recall = np_mean (map (\<lambda>metrics. np_mean (map Fin (eval_recall metrics))) fold_metrics),
      f1 = np_mean (map (\<lambda>metrics. np_mean (map Fin (eval_f1 metrics))) fold_metrics)\<rparr>"

subsection \<open>Files\<close>

text \<open>
  What a file holds: the per-fold table the script writes, a row per fold with its
  \<^verbatim>\<open>fold\<close> number; the one-row table of averages; or whatever a library wrote
  (a checkpoint, a log, a cached download). A file system is the set of its directories
  and the content of its files; paths are compared as written.
\<close>

datatype content =
  FoldTable "(nat \<times> eval_metrics) list"
| AverageTable "(float64, float64) metrics list"
| LibraryFile

record filesystem =
  dirs :: "string set"
  files :: "string \<Rightarrow> content option"

text \<open>
  A step that may write files returns its result together with the file system it
  leaves: an exception keeps what was written before it.
\<close>

type_synonym 'a outcome = "(error + 'a) \<times> filesystem"

definition bind_fs :: "'a outcome \<Rightarrow> ('a \<Rightarrow> filesystem \<Rightarrow> 'b outcome) \<Rightarrow> 'b outcome" where
  "bind_fs m f = (case m of (Inl e, fs) \<Rightarrow> (Inl e, fs) | (Inr x, fs) \<Rightarrow> f x fs)"

text \<open>\<^verbatim>\<open>os.path.join\<close> of two parts (POSIX): an absolute second part replaces the first.\<close>

definition os_path_join :: "string \<Rightarrow> string \<Rightarrow> string" where
  "os_path_join a b =
     (if b \<noteq> [] \<and> hd b = CHR ''/'' then b
      else if a = [] \<or> last a = CHR ''/'' then a @ b
      else a @ ''/'' @ b)"

text \<open>
  \<^verbatim>\<open>os.makedirs(path, exist_ok=True)\<close> for a path one level below an existing directory:
  an existing directory is accepted, a file of that name is not.
\<close>

definition os_makedirs :: "string \<Rightarrow> filesystem \<Rightarrow> unit outcome" where
  "os_makedirs path fs =
     (if files fs path \<noteq> None then (Inl OSError, fs)
      else (Inr (), fs\<lparr>dirs := insert path (dirs fs)\<rparr>))"

text \<open>
  The directory part of a path: what stands before its last slash, without trailing
  slashes unless it is the root.
\<close>

definition os_path_dirname :: "string \<Rightarrow> string" where
  "os_path_dirname p =
     (let head = rev (dropWhile (\<lambda>c. c \<noteq> CHR ''/'') (rev p))
      in if head \<noteq> [] \<and> (\<exists>c \<in> set head. c \<noteq> CHR ''/'')
         then rev (dropWhile (\<lambda>c. c = CHR ''/'') (rev head))
         else head)"

text \<open>
  \<^verbatim>\<open>DataFrame.to_csv(path)\<close>: writing into a directory that does not exist raises
  \<^verbatim>\<open>OSError\<close>. The current directory (empty directory part) and the root exist.
\<close>

definition to_csv :: "content \<Rightarrow> string \<Rightarrow> filesystem \<Rightarrow> unit outcome" where
  "to_csv table path fs =
     (let parent = os_path_dirname path
      in if parent = [] \<or> parent = ''/'' \<or> parent \<in> dirs fs
         then (Inr (), fs\<lparr>files := (files fs)(path \<mapsto> table)\<rparr>)
         else (Inl OSError, fs))"

subsection \<open>The libraries\<close>

text \<open>
  A tensor of a dataset item is built from a list of token ids or from a label.
  \<^verbatim>\<open>TrainingArguments\<close> and \<^verbatim>\<open>Trainer\<close> are the records of the arguments the script
  passes.
\<close>

datatype tensor = TokenIds "int list" | LabelId nat

type_synonym dataset = "(string \<times> tensor) list list"

record training_arguments =
  output_dir :: string
  num_train_epochs :: nat
  per_device_train_batch_size :: nat
  eval_strategy :: string
  save_strategy :: string
  logging_dir :: string
  report_to :: string

record 'model trainer =
  trainer_model :: 'model
  trainer_args :: training_arguments
  train_dataset :: dataset
  eval_dataset :: dataset
  trainer_compute_metrics ::
    "real list list \<times> nat list \<Rightarrow> error + (real, real list) metrics"

text \<open>
  The state of NumPy's global random generator when the script starts. A splitter
  built with \<^verbatim>\<open>random_state=None\<close> draws from it; one built with a seed does not.
\<close>

type_synonym generator = nat

text \<open>
  The calls into pandas, scikit-learn and transformers are parameters of the model:
  \<^item> \<open>read_csv path\<close> is \<^verbatim>\<open>pd.read_csv(path)\<close>;
  \<^item> \<open>skf_split n_splits shuffle random_state g texts labels\<close> is the list of
    \<^verbatim>\<open>(train_idx, test_idx)\<close> that
    \<^verbatim>\<open>StratifiedKFold(n_splits, shuffle, random_state).split(texts, labels)\<close> yields when
    the global generator is in state \<open>g\<close>;
  \<^item> \<open>tokenizer_from_pretrained\<close> and \<open>model_from_pretrained\<close> load a tokenizer and a
    model (the latter with \<^verbatim>\<open>num_labels\<close>);
  \<^item> \<open>tokenizer_call\<close> applies a tokenizer;
  \<^item> \<open>trainer_train\<close> is \<^verbatim>\<open>trainer.train()\<close>, returning the model it has fine-tuned, and
    \<open>trainer_evaluate\<close> is \<^verbatim>\<open>trainer.evaluate()\<close>.
  Any of them may raise. Loading, training and evaluating may write files (downloads,
  checkpoints and logs under the trainer's \<^verbatim>\<open>output_dir\<close>), so they take the file system
  and return the one they leave.
\<close>

record ('tok, 'model) library =
  read_csv :: "string \<Rightarrow> error + dataframe"
  skf_split ::
    "nat \<Rightarrow> bool \<Rightarrow> nat option \<Rightarrow> generator \<Rightarrow> cell list \<Rightarrow> nat list
       \<Rightarrow> error + (nat list \<times> nat list) list"
  tokenizer_from_pretrained :: "string \<Rightarrow> filesystem \<Rightarrow> 'tok outcome"
  tokenizer_call :: "'tok tokenizer_call"
  model_from_pretrained :: "string \<Rightarrow> nat \<Rightarrow> filesystem \<Rightarrow> 'model outcome"
  trainer_train :: "'model trainer \<Rightarrow> filesystem \<Rightarrow> 'model outcome"
  trainer_evaluate :: "'model trainer \<Rightarrow> filesystem \<Rightarrow> eval_metrics outcome"

subsection \<open>\<^verbatim>\<open>cross_validate_model\<close>\<close>

text \<open>
  The splits of lines 87 and 93:
  \<^verbatim>\<open>StratifiedKFold(n_splits=k, shuffle=True, random_state=42).split(texts, labels)\<close>.
\<close>

definition stratified_splits ::
  "('tok, 'model) library \<Rightarrow> nat \<Rightarrow> cell list \<Rightarrow> nat list \<Rightarrow> generator
     \<Rightarrow> error + (nat list \<times> nat list) list" where
  "stratified_splits lib k texts labels g = skf_split lib k True (Some 42) g texts labels"

text \<open>\<^verbatim>\<open>xs[i]\<close> for an index from 0, and \<^verbatim>\<open>xs[idx]\<close> for an array of indices.\<close>

definition index :: "'a list \<Rightarrow> nat \<Rightarrow> error + 'a" where
  "index xs i = (if i < length xs then Inr (xs ! i) else Inl IndexError)"

definition take_indices :: "'a list \<Rightarrow> nat list \<Rightarrow> error + 'a list" where
  "take_indices xs idx = apply_rows (index xs) idx"

text \<open>\<^verbatim>\<open>a | b\<close> on dictionaries: the keys of \<open>a\<close> with the values \<open>b\<close> overrides, then the new keys of \<open>b\<close>.\<close>

definition dict_union :: "('k \<times> 'v) list \<Rightarrow> ('k \<times> 'v) list \<Rightarrow> ('k \<times> 'v) list" where
  "dict_union a b =
     map (\<lambda>(k, v). (k, case map_of b k of None \<Rightarrow> v | Some v' \<Rightarrow> v')) a
     @ filter (\<lambda>(k, v). k \<notin> set (dict_keys a)) b"

text \<open>The list of dictionaries built from the encodings and the labels (lines 107--114).\<close>

definition dataset_item :: "encodings \<Rightarrow> nat list \<Rightarrow> nat \<Rightarrow> error + (string \<times> tensor) list" where
  "dataset_item encodings labels i =
     bind_err (apply_rows (\<lambda>(key, val). bind_err (index val i) (\<lambda>v. Inr (key, TokenIds v)))
                 encodings) (\<lambda>features.
     bind_err (index labels i) (\<lambda>l.
     Inr (dict_union features [(''labels'', LabelId l)])))"

definition make_dataset :: "encodings \<Rightarrow> nat list \<Rightarrow> error + dataset" where
  "make_dataset encodings labels =
     apply_rows (dataset_item encodings labels) [0..<length labels]"

text \<open>
  The first half of the loop body (lines 99--114), which touches no file: the texts and
  labels of the two index arrays, their encodings, and the two datasets.
\<close>

definition fold_datasets ::
  "'tok tokenizer_call \<Rightarrow> 'tok \<Rightarrow> cell list \<Rightarrow> nat list \<Rightarrow> nat list \<times> nat list
     \<Rightarrow> error + dataset \<times> dataset" where
  "fold_datasets call tokenizer texts labels fold_split =
     (case fold_split of (train_idx, test_idx) \<Rightarrow>
        bind_err (take_indices texts train_idx) (\<lambda>train_texts.
        bind_err (take_indices texts test_idx) (\<lambda>test_texts.
        bind_err (take_indices labels train_idx) (\<lambda>train_labels.
        bind_err (take_indices labels test_idx) (\<lambda>test_labels.
        bind_err (preprocess_data call train_texts train_labels tokenizer)
          (\<lambda>(train_encodings, train_labels).
        bind_err (preprocess_data call test_texts test_labels tokenizer)
          (\<lambda>(test_encodings, test_labels).
        bind_err (make_dataset train_encodings train_labels) (\<lambda>train_set.
        bind_err (make_dataset test_encodings test_labels) (\<lambda>test_set.
        Inr (train_set, test_set))))))))))"

text \<open>The decimal numeral of a number, for \<^verbatim>\<open>f"fold-{fold}"\<close>.\<close>

fun str_nat :: "nat \<Rightarrow> string" where
  "str_nat n =
     (if n < 10 then [char_of (48 + n)]
      else str_nat (n div 10) @ [char_of (48 + n mod 10)])"

declare str_nat.simps [simp del]

text \<open>The \<^verbatim>\<open>TrainingArguments\<close> and the \<^verbatim>\<open>Trainer\<close> of a fold (lines 123--140).\<close>

definition fold_training_args :: "string \<Rightarrow> nat \<Rightarrow> training_arguments" where
  "fold_training_args out_dir fold_ix =
     \<lparr>output_dir = os_path_join out_dir (''fold-'' @ str_nat fold_ix),
      num_train_epochs = 3,
      per_device_train_batch_size = 16,
      eval_strategy = ''epoch'',
      save_strategy = ''epoch'',
      logging_dir = os_path_join out_dir (''fold-'' @ str_nat fold_ix @ ''/logs''),
      report_to = ''none''\<rparr>"

definition fold_trainer :: "string \<Rightarrow> nat \<Rightarrow> 'model \<Rightarrow> dataset \<Rightarrow> dataset \<Rightarrow> 'model trainer" where
  "fold_trainer out_dir fold_ix model train_set test_set =
     \<lparr>trainer_model = model,
      trainer_args = fold_training_args out_dir fold_ix,
      train_dataset = train_set,
      eval_dataset = test_set,
      trainer_compute_metrics = compute_metrics\<rparr>"

text \<open>
  One pass of the loop body (lines 94--145), returning the fold's \<^verbatim>\<open>eval_metrics\<close>.
  \<^verbatim>\<open>trainer.train()\<close> updates the trainer's model, which \<^verbatim>\<open>trainer.evaluate()\<close> then uses.
\<close>

definition run_fold ::
  "('tok, 'model) library \<Rightarrow> string \<Rightarrow> 'tok \<Rightarrow> cell list \<Rightarrow> nat list \<Rightarrow> bool \<Rightarrow> string
     \<Rightarrow> nat \<Rightarrow> nat list \<times> nat list \<Rightarrow> filesystem \<Rightarrow> eval_metrics outcome" where
  "run_fold lib model_id tokenizer texts labels multiclass out_dir fold_ix fold_split fs =
     (case fold_datasets (tokenizer_call lib) tokenizer texts labels fold_split of
        Inl e \<Rightarrow> (Inl e, fs)
      | Inr (train_set, test_set) \<Rightarrow>
          bind_fs (model_from_pretrained lib model_id
                     (if multiclass then length MULTICLASS_LABEL_MAP else 2) fs) (\<lambda>model fs.
          let trainer = fold_trainer out_dir fold_ix model train_set test_set
          in bind_fs (trainer_train lib trainer fs) (\<lambda>trained fs.
             trainer_evaluate lib (trainer\<lparr>trainer_model := trained\<rparr>) fs)))"

text \<open>
  The loop over \<^verbatim>\<open>enumerate(skf.split(texts, labels))\<close>, with its two accumulators
  \<^verbatim>\<open>fold_metrics\<close> and \<^verbatim>\<open>fold_detailed_metrics\<close>.
\<close>

fun run_folds ::
  "('tok, 'model) library \<Rightarrow> string \<Rightarrow> 'tok \<Rightarrow> cell list \<Rightarrow> nat list \<Rightarrow> bool \<Rightarrow> string
     \<Rightarrow> nat \<Rightarrow> (nat list \<times> nat list) list
     \<Rightarrow> eval_metrics list \<times> (nat \<times> eval_metrics) list \<Rightarrow> filesystem
     \<Rightarrow> (eval_metrics list \<times> (nat \<times> eval_metrics) list) outcome" where
  "run_folds lib model_id tokenizer texts labels multiclass out_dir fold_ix [] acc fs =
     (Inr acc, fs)"
| "run_folds lib model_id tokenizer texts labels multiclass out_dir fold_ix (fold_split # splits)
     acc fs =
     bind_fs (run_fold lib model_id tokenizer texts labels multiclass out_dir fold_ix fold_split fs)
       (\<lambda>eval_metrics fs.
          run_folds lib model_id tokenizer texts labels multiclass out_dir (Suc fold_ix) splits
            (fst acc @ [eval_metrics], snd acc @ [(fold_ix + 1, eval_metrics)]) fs)"

definition cross_validate_model ::
  "('tok, 'model) library \<Rightarrow> string \<Rightarrow> string \<Rightarrow> cell list \<Rightarrow> nat list \<Rightarrow> nat \<Rightarrow> bool
     \<Rightarrow> string \<Rightarrow> generator \<Rightarrow> filesystem \<Rightarrow> (float64, float64) metrics outcome" where
  "cross_validate_model lib model_id tokenizer_id texts labels k multiclass out_dir g fs =
     bind_fs (tokenizer_from_pretrained lib tokenizer_id fs) (\<lambda>tokenizer fs.
     bind_fs (stratified_splits lib k texts labels g, fs) (\<lambda>splits fs.
     bind_fs (run_folds lib model_id tokenizer texts labels multiclass out_dir 0 splits
                ([], []) fs) (\<lambda>(fold_metrics, fold_detailed_metrics) fs.
     bind_fs (to_csv (FoldTable fold_detailed_metrics)
                (os_path_join out_dir ''fold_metrics.csv'') fs) (\<lambda>u fs.
     (Inr (aggregate_metrics fold_metrics), fs)))))"

subsection \<open>\<^verbatim>\<open>save_metrics\<close> and \<^verbatim>\<open>main\<close>\<close>

definition save_metrics ::
  "(float64, float64) metrics \<Rightarrow> string \<Rightarrow> filesystem \<Rightarrow> unit outcome" where
  "save_metrics metrics output_csv fs = to_csv (AverageTable [metrics]) output_csv fs"

record args =
  model_id :: string
  tokenizer_id :: string
  input_csv :: string
  multiclass :: bool

text \<open>
  \<^verbatim>\<open>main\<close>, from the parsed arguments, the state of the global generator and the file
  system it starts with.
\<close>

definition main ::
  "('tok, 'model) library \<Rightarrow> args \<Rightarrow> generator \<Rightarrow> filesystem \<Rightarrow> unit outcome" where
  "main lib args g fs =
     (case load_data (read_csv lib) (input_csv args) (multiclass args) of
        Inl e \<Rightarrow> (Inl e, fs)
      | Inr df \<Rightarrow>
     (case display_emotion_counts df of
        Inl e \<Rightarrow> (Inl e, fs)
      | Inr u \<Rightarrow>
     (case column_sentence df of
        Inl e \<Rightarrow> (Inl e, fs)
      | Inr texts \<Rightarrow>
     (case column_labels df of
        Inl e \<Rightarrow> (Inl e, fs)
      | Inr labels \<Rightarrow>
          bind_fs (os_makedirs ''./evaluation'' fs) (\<lambda>u fs.
          bind_fs (cross_validate_model lib (model_id args) (tokenizer_id args) texts labels 10
                     (multiclass args) ''./evaluation'' g fs) (\<lambda>avg_metrics fs.
          save_metrics avg_metrics
            (os_path_join ''./evaluation''
               (model_id args @ ''-''
                @ (if multiclass args then ''multiclass'' else ''binary'')
                @ ''_metrics.csv''))
            fs))))))"

section \<open>Notions used in the statements\<close>

text \<open>The binary label of a row for an emotion, as a closed formula.\<close>

definition positive_if :: "row \<Rightarrow> string \<Rightarrow> nat" where
  "positive_if r emotion =
     (if Str emotion = emotion_A r \<or> Str emotion = emotion_B r then 1 else 0)"

text \<open>
  A cell is a valid emotion when it is one of the nine keys of the label map; a row is
  valid when its first emotion is, and its second one too if present.
\<close>

definition valid_emotion :: "cell \<Rightarrow> bool" where
  "valid_emotion c =
     (case c of NA \<Rightarrow> False | Str s \<Rightarrow> s \<in> set (dict_keys MULTICLASS_LABEL_MAP))"

definition valid_row :: "row \<Rightarrow> bool" where
  "valid_row r =
     (valid_emotion (emotion_A r) \<and> (notna (emotion_B r) \<longrightarrow> valid_emotion (emotion_B r)))"

subsection \<open>Sample inputs\<close>

definition reviews :: dataframe where
  "reviews =
     \<lparr>rows = [\<lparr>sentence = Str ''great app'', emotion_A = Str ''Joy'', emotion_B = Str ''Trust''\<rparr>,
              \<lparr>sentence = Str ''it crashes'', emotion_A = Str ''Anger'', emotion_B = NA\<rparr>],
      labels_col = None\<rparr>"

definition reviews_same_A :: dataframe where
  "reviews_same_A =
     \<lparr>rows = [\<lparr>sentence = Str ''mixed'', emotion_A = Str ''Joy'', emotion_B = Str ''Sadness''\<rparr>,
              \<lparr>sentence = Str ''mixed too'', emotion_A = Str ''Joy'', emotion_B = Str ''Anger''\<rparr>],
      labels_col = None\<rparr>"

definition reviews_unknown :: dataframe where
  "reviews_unknown =
     \<lparr>rows = [\<lparr>sentence = Str ''great app'', emotion_A = Str ''Joy'', emotion_B = NA\<rparr>,
              \<lparr>sentence = Str ''fine'', emotion_A = Str ''Happy'', emotion_B = NA\<rparr>],
      labels_col = None\<rparr>"

text \<open>A stand-in tokenizer: two token ids per text, and an error on a missing text.\<close>

definition fixed_tokenizer :: "unit tokenizer_call" where
  "fixed_tokenizer tok texts truncation padding max_length =
     (if list_all notna texts
      then Inr [(''input_ids'', map (\<lambda>t. [101, 102]) texts),
                (''attention_mask'', map (\<lambda>t. [1, 1]) texts)]
      else Inl TypeError)"

text \<open>The arithmetic mean of a non-empty list of numbers.\<close>

definition arithmetic_mean :: "real list \<Rightarrow> real" where
  "arithmetic_mean xs = sum_list xs / real (length xs)"

text \<open>
  \<open>j\<close> is the argmax of a row of scores: a position of the row whose score no other
  position exceeds, and the first such position.
\<close>

definition is_argmax :: "real list \<Rightarrow> nat \<Rightarrow> bool" where
  "is_argmax scores j \<longleftrightarrow>
     j < length scores \<and> (\<forall>k < length scores. scores ! k \<le> scores ! j)
     \<and> (\<forall>k < j. scores ! k < scores ! j)"

text \<open>
  For a class \<open>c\<close>: the samples labelled \<open>c\<close> in a list, the samples where label and
  prediction are both \<open>c\<close>, and the share of one set of samples in another (0 when the
  second is empty). The harmonic mean of precision and recall is the F1 score.
\<close>

definition hits :: "nat list \<Rightarrow> nat list \<Rightarrow> nat \<Rightarrow> nat set" where
  "hits y_true y_pred c = {i. i < length y_true \<and> y_true ! i = c \<and> y_pred ! i = c}"

definition labelled :: "nat list \<Rightarrow> nat \<Rightarrow> nat set" where
  "labelled ys c = {i. i < length ys \<and> ys ! i = c}"

definition share :: "nat set \<Rightarrow> nat set \<Rightarrow> real" where
  "share A B = (if card B = 0 then 0 else real (card A) / real (card B))"

definition harmonic_mean :: "real \<Rightarrow> real \<Rightarrow> real" where
  "harmonic_mean p r = (if p + r = 0 then 0 else 2 * p * r / (p + r))"

subsection \<open>A sample run\<close>

text \<open>Two folds of metrics, and three rows of scores over two classes.\<close>

definition two_folds :: "eval_metrics list" where
  "two_folds =
     [\<lparr>eval_accuracy = 1 / 2, eval_precision = [1, 1 / 2], eval_recall = [1 / 2, 1],
       eval_f1 = [1 / 2, 1 / 2]\<rparr>,
      \<lparr>eval_accuracy = 1, eval_precision = [1, 1], eval_recall = [1, 1], eval_f1 = [1, 1]\<rparr>]"

definition sample_scores :: "real list list" where
  "sample_scores = [[1 / 10, 9 / 10], [4 / 5, 1 / 5], [3 / 10, 7 / 10]]"

text \<open>
  Ten reviews of one emotion, and stand-ins for the libraries: a splitter that leaves
  one sample in ten out per fold, rotated by the seed when it has one and by the state
  of the global generator when it has none; a tokenizer and a model that load; a training
  run that counts its calls and writes a checkpoint under its output directory; and an
  evaluation that reports a perfect fold.
\<close>

definition reviews10 :: dataframe where
  "reviews10 =
     \<lparr>rows = map (\<lambda>s. \<lparr>sentence = Str s, emotion_A = Str ''Joy'', emotion_B = NA\<rparr>)
               [''r0'', ''r1'', ''r2'', ''r3'', ''r4'', ''r5'', ''r6'', ''r7'', ''r8'', ''r9''],
      labels_col = None\<rparr>"

definition texts10 :: "cell list" where
  "texts10 = map Str [''r0'', ''r1'', ''r2'', ''r3'', ''r4'', ''r5'', ''r6'', ''r7'', ''r8'', ''r9'']"

definition round_robin_split ::
  "nat \<Rightarrow> bool \<Rightarrow> nat option \<Rightarrow> generator \<Rightarrow> cell list \<Rightarrow> nat list
     \<Rightarrow> error + (nat list \<times> nat list) list" where
  "round_robin_split k shuffle random_state g texts labels =
     (if k < 2 \<or> length texts < k then Inl ValueError
      else let shift = (case random_state of None \<Rightarrow> g | Some seed \<Rightarrow> seed)
           in Inr (map (\<lambda>i. (filter (\<lambda>j. (j + shift) mod k \<noteq> i) [0..<length texts],
                               filter (\<lambda>j. (j + shift) mod k = i) [0..<length texts]))
                     [0..<k]))"

definition leave_one_out10 :: "(nat list \<times> nat list) list" where
  "leave_one_out10 =
     [([0,1,2,3,4,5,6,7,9], [8]), ([0,1,2,3,4,5,6,7,8], [9]), ([1,2,3,4,5,6,7,8,9], [0]),
      ([0,2,3,4,5,6,7,8,9], [1]), ([0,1,3,4,5,6,7,8,9], [2]), ([0,1,2,4,5,6,7,8,9], [3]),
      ([0,1,2,3,5,6,7,8,9], [4]), ([0,1,2,3,4,6,7,8,9], [5]), ([0,1,2,3,4,5,7,8,9], [6]),
      ([0,1,2,3,4,5,6,8,9], [7])]"

definition perfect_fold :: eval_metrics where
  "perfect_fold = \<lparr>eval_accuracy = 1, eval_precision = [1], eval_recall = [1], eval_f1 = [1]\<rparr>"

definition perfect_average :: "(float64, float64) metrics" where
  "perfect_average = \<lparr>accuracy = Fin 1, precision = Fin 1, recall = Fin 1, f1 = Fin 1\<rparr>"

definition write_checkpoint :: "string \<Rightarrow> filesystem \<Rightarrow> filesystem" where
  "write_checkpoint out fs =
     fs\<lparr>dirs := insert out (dirs fs), files := (files fs)(out @ ''/checkpoint'' \<mapsto> LibraryFile)\<rparr>"

fun write_checkpoints :: "string \<Rightarrow> nat list \<Rightarrow> filesystem \<Rightarrow> filesystem" where
  "write_checkpoints out [] fs = fs"
| "write_checkpoints out (j # js) fs =
     write_checkpoints out js (write_checkpoint (os_path_join out (''fold-'' @ str_nat j)) fs)"

definition sample_library :: "dataframe \<Rightarrow> (unit, nat) library" where
  "sample_library df =
     \<lparr>read_csv = (\<lambda>path. if path = ''reviews.csv'' then Inr df else Inl OSError),
      skf_split = round_robin_split,
      tokenizer_from_pretrained = (\<lambda>tokenizer_id fs. (Inr (), fs)),
      tokenizer_call = fixed_tokenizer,
      model_from_pretrained = (\<lambda>model_id num_labels fs. (Inr 0, fs)),
      trainer_train =
        (\<lambda>trainer fs. (Inr (Suc (trainer_model trainer)),
                        write_checkpoint (output_dir (trainer_args trainer)) fs)),
      trainer_evaluate = (\<lambda>trainer fs. (Inr perfect_fold, fs))\<rparr>"

text \<open>
  A disk with the directory of a local model and no file yet, and the command lines of a
  binary run, of a run with a local model and of a run with a model of the hub.
\<close>

definition fresh_disk :: filesystem where
  "fresh_disk = \<lparr>dirs = {''/models''}, files = Map.empty\<rparr>"

definition binary_args :: args where
  "binary_args =
     \<lparr>model_id = ''bert-base-uncased'', tokenizer_id = ''bert-base-uncased'',
      input_csv = ''reviews.csv'', multiclass = False\<rparr>"

definition local_model_args :: args where
  "local_model_args =
     \<lparr>model_id = ''/models/bert'', tokenizer_id = ''/models/bert'',
      input_csv = ''reviews.csv'', multiclass = True\<rparr>"

definition hub_model_args :: args where
  "hub_model_args =
     \<lparr>model_id = ''google-bert/bert-base-uncased'',
      tokenizer_id = ''google-bert/bert-base-uncased'',
      input_csv = ''reviews.csv'', multiclass = True\<rparr>"

text \<open>The fresh disk after the ten folds of the sample run and the write of the per-fold table.\<close>

definition trained_disk :: filesystem where
  "trained_disk =
     (let fs = write_checkpoints ''./evaluation'' [0..<10]
                 (fresh_disk\<lparr>dirs := insert ''./evaluation'' (dirs fresh_disk)\<rparr>)
      in fs\<lparr>files := (files fs)(''./evaluation/fold_metrics.csv''
                \<mapsto> FoldTable (zip [1..<11] (replicate 10 perfect_fold)))\<rparr>)"

text \<open>
  The contract of a seeded splitter: with a seed, the splits do not depend on the state
  of the global generator.
\<close>

definition honours_seed :: "('tok, 'model) library \<Rightarrow> bool" where
  "honours_seed lib \<longleftrightarrow>
     (\<forall>k shuffle seed g g' texts labels.
        skf_split lib k shuffle (Some seed) g texts labels
          = skf_split lib k shuffle (Some seed) g' texts labels)"

section \<open>Properties of \<^verbatim>\<open>load_data\<close> and \<^verbatim>\<open>preprocess_data\<close>\<close>

lemma binary_label_eq: "binary_label r emotion = Inr (positive_if r emotion)"
  by (simp add: binary_label_def positive_if_def BINARY_LABEL_MAP_def) 

lemma dict_keys_append_map:
  "dict_keys (map (\<lambda>(k', vs). if P k' then (k', f k' vs) else (k', vs)) d) = dict_keys d"
  by (induction d) (auto simp: dict_keys_def)

lemma label_row_eq:
  "set es \<subseteq> set (dict_keys d) \<Longrightarrow> distinct es \<Longrightarrow>
   label_row r es d =
     Inr (map (\<lambda>(k, vs). if k \<in> set es then (k, vs @ [positive_if r k]) else (k, vs)) d)"
proof (induction es arbitrary: d)
  case Nil
  then show ?case by (simp add: case_prod_unfold)
next
  case (Cons e es)
  let ?d' = "map (\<lambda>(k', vs). if k' = e then (k', vs @ [positive_if r e]) else (k', vs)) d"
  have keys: "dict_keys ?d' = dict_keys d"
    by (rule dict_keys_append_map)
  have step: "dict_append d e (positive_if r e) = Inr ?d'"
    using Cons.prems(1) by (simp add: dict_append_def)
  have rest: "label_row r es ?d' =
      Inr (map (\<lambda>(k, vs). if k \<in> set es then (k, vs @ [positive_if r k]) else (k, vs)) ?d')"
    using Cons.prems by (intro Cons.IH) (simp_all add: keys)
  have "label_row r (e # es) d = label_row r es ?d'"
    by (simp add: binary_label_eq step bind_err_def)
  also have "\<dots> = Inr (map (\<lambda>(k, vs). if k \<in> set (e # es) then (k, vs @ [positive_if r k]) else (k, vs)) d)"
    unfolding rest using Cons.prems(2) by (auto simp: case_prod_unfold)
  finally show ?case .
qed

lemma distinct_keys: "distinct (dict_keys MULTICLASS_LABEL_MAP)"
  by (simp add: dict_keys_def MULTICLASS_LABEL_MAP_def)

lemma label_rows_eq:
  "dict_keys d = dict_keys MULTICLASS_LABEL_MAP \<Longrightarrow>
   label_rows rs d = Inr (map (\<lambda>(k, vs). (k, vs @ map (\<lambda>r. positive_if r k) rs)) d)"
proof (induction rs arbitrary: d)
  case Nil
  then show ?case by (simp add: case_prod_unfold)
next
  case (Cons r rs)
  let ?d' = "map (\<lambda>(k, vs). (k, vs @ [positive_if r k])) d"
  have row: "label_row r (dict_keys MULTICLASS_LABEL_MAP) d = Inr ?d'"
  proof -
    have "label_row r (dict_keys MULTICLASS_LABEL_MAP) d =
        Inr (map (\<lambda>(k, vs). if k \<in> set (dict_keys MULTICLASS_LABEL_MAP)
                              then (k, vs @ [positive_if r k]) else (k, vs)) d)"
      using Cons.prems distinct_keys by (intro label_row_eq) simp_all
    also have "map (\<lambda>(k, vs). if k \<in> set (dict_keys MULTICLASS_LABEL_MAP)
                              then (k, vs @ [positive_if r k]) else (k, vs)) d = ?d'"
      unfolding Cons.prems [symmetric] by (rule map_cong) (force simp: dict_keys_def)+
    finally show ?thesis .
  qed
  have keys: "dict_keys ?d' = dict_keys MULTICLASS_LABEL_MAP"
    using Cons.prems by (simp add: dict_keys_def case_prod_unfold comp_def)
  have "label_rows (r # rs) d = label_rows rs ?d'"
    by (simp add: row bind_err_def)
  also have "\<dots> = Inr (map (\<lambda>(k, vs). (k, vs @ map (\<lambda>r. positive_if r k) rs)) ?d')"
    by (rule Cons.IH [OF keys])
  also have "\<dots> = Inr (map (\<lambda>(k, vs). (k, vs @ map (\<lambda>r. positive_if r k) (r # rs))) d)"
    by (simp add: case_prod_unfold comp_def)
  finally show ?case .
qed

lemma load_data_binary_eq:
  assumes "reader path = Inr df"
  shows "load_data reader path False =
    Inr (FrameAndLabels df
      (map (\<lambda>emotion. (emotion, map (\<lambda>r. positive_if r emotion) (rows df)))
         (dict_keys MULTICLASS_LABEL_MAP)))"
  using assms
  by (simp add: load_data_def bind_err_def label_rows_eq dict_keys_def comp_def)

text \<open>
  Claim C3. In binary mode \<^verbatim>\<open>load_data\<close> returns the frame with nine label lists, one per
  emotion of \<^verbatim>\<open>MULTICLASS_LABEL_MAP\<close> in its order; each list has one entry per row, and
  the entry of emotion \<open>e\<close> for row \<open>i\<close> is 1 exactly when \<open>e\<close> is the row's
  \<^verbatim>\<open>emotion-A\<close> or \<^verbatim>\<open>emotion-B\<close> value, and 0 otherwise.
\<close>

theorem load_data_binary_labels:
  assumes "reader path = Inr df"
  shows "\<exists>binary_labels.
    load_data reader path False = Inr (FrameAndLabels df binary_labels) \<and>
    dict_keys binary_labels = dict_keys MULTICLASS_LABEL_MAP \<and>
    length binary_labels = 9 \<and>
    (\<forall>emotion \<in> set (dict_keys MULTICLASS_LABEL_MAP).
       \<exists>ls. map_of binary_labels emotion = Some ls \<and>
            length ls = length (rows df) \<and>
            (\<forall>i < length (rows df).
               ls ! i = (if Str emotion = emotion_A (rows df ! i)
                            \<or> Str emotion = emotion_B (rows df ! i) then 1 else 0)))"
proof -
  let ?bl = "map (\<lambda>emotion. (emotion, map (\<lambda>r. positive_if r emotion) (rows df)))
               (dict_keys MULTICLASS_LABEL_MAP)"
  have 1: "load_data reader path False = Inr (FrameAndLabels df ?bl)"
    using assms by (rule load_data_binary_eq)
  have 2: "dict_keys ?bl = dict_keys MULTICLASS_LABEL_MAP"
    by (simp add: dict_keys_def comp_def)
  have 3: "length ?bl = 9"
    by (simp add: dict_keys_def MULTICLASS_LABEL_MAP_def)
  have 4: "map_of ?bl emotion = Some (map (\<lambda>r. positive_if r emotion) (rows df))"
    if "emotion \<in> set (dict_keys MULTICLASS_LABEL_MAP)" for emotion
    using that by (simp add: map_of_map_restrict)
  show ?thesis
    using 1 2 3 4 by (intro exI [of _ ?bl]) (simp add: positive_if_def)
qed


lemma bind_err_Inr_iff:
  "bind_err m f = Inr y \<longleftrightarrow> (\<exists>x. m = Inr x \<and> f x = Inr y)"
  by (cases m) (simp_all add: bind_err_def)

lemma bind_err_Inl_iff:
  "bind_err m f = Inl e \<longleftrightarrow> m = Inl e \<or> (\<exists>x. m = Inr x \<and> f x = Inl e)"
  by (cases m) (simp_all add: bind_err_def)

lemma apply_rows_Inr_iff:
  "apply_rows f xs = Inr ys \<longleftrightarrow>
     length ys = length xs \<and> (\<forall>i < length xs. f (xs ! i) = Inr (ys ! i))"
proof (induction xs arbitrary: ys)
  case Nil
  then show ?case by auto
next
  case (Cons x xs)
  show ?case
  proof (cases ys)
    case Nil
    then show ?thesis by (auto simp: bind_err_Inr_iff)
  next
    case (Cons y ys')
    then show ?thesis
      by (auto simp: bind_err_Inr_iff Cons.IH nth_Cons split: nat.splits)
  qed
qed

lemma apply_rows_Inl:
  assumes "\<forall>x \<in> set xs. \<forall>e'. f x = Inl e' \<longrightarrow> e' = e"
    and "\<exists>x \<in> set xs. f x = Inl e"
  shows "apply_rows f xs = Inl e"
  using assms
proof (induction xs)
  case Nil
  then show ?case by simp
next
  case (Cons x xs)
  show ?case
  proof (cases "f x")
    case (Inl e')
    with Cons.prems(1) show ?thesis by (simp add: bind_err_def)
  next
    case (Inr y)
    with Cons.prems have "apply_rows f xs = Inl e"
      by (intro Cons.IH) auto
    with Inr show ?thesis by (simp add: bind_err_def)
  qed
qed

lemma dict_get_multiclass_Inr:
  "dict_get MULTICLASS_LABEL_MAP c = Inr v \<Longrightarrow> valid_emotion c \<and> v < 9"
  by (cases c)
    (auto simp: valid_emotion_def dict_keys_def MULTICLASS_LABEL_MAP_def split: if_splits)

lemma dict_get_multiclass_Inl:
  "dict_get MULTICLASS_LABEL_MAP c = Inl e \<Longrightarrow> \<not> valid_emotion c \<and> e = KeyError"
  by (cases c)
    (auto simp: valid_emotion_def dict_keys_def MULTICLASS_LABEL_MAP_def split: if_splits)

lemma label_list_Inr:
  assumes "label_list r = Inr l"
  shows "valid_row r \<and> (\<exists>a rest. l = a # rest \<and> a < 9
            \<and> dict_get MULTICLASS_LABEL_MAP (emotion_A r) = Inr a)"
  using assms
  by (auto simp: label_list_def valid_row_def bind_err_Inr_iff
      dest: dict_get_multiclass_Inr split: if_splits)

lemma label_list_Inl:
  assumes "label_list r = Inl e"
  shows "\<not> valid_row r \<and> e = KeyError"
  using assms
  by (auto simp: label_list_def valid_row_def bind_err_Inl_iff
      dest: dict_get_multiclass_Inl dict_get_multiclass_Inr split: if_splits)

lemma label_list_invalid:
  assumes "\<not> valid_row r"
  shows "label_list r = Inl KeyError"
proof (cases "label_list r")
  case (Inl e)
  then show ?thesis using label_list_Inl by blast
next
  case (Inr l)
  then show ?thesis using label_list_Inr assms by blast
qed

lemma load_data_multiclass_Inr:
  assumes "reader path = Inr df"
    and "load_data reader path True = Inr res"
  shows "\<exists>ls. res = Frame (df\<lparr>labels_col := Some ls\<rparr>) \<and>
           length ls = length (rows df) \<and>
           (\<forall>i < length (rows df).
              valid_row (rows df ! i) \<and> ls ! i < 9 \<and>
              dict_get MULTICLASS_LABEL_MAP (emotion_A (rows df ! i)) = Inr (ls ! i))"
proof -
  from assms obtain lists ls where
    lists: "apply_rows label_list (rows df) = Inr lists"
    and ls: "apply_rows first lists = Inr ls"
    and res: "res = Frame (df\<lparr>labels_col := Some ls\<rparr>)"
    by (auto simp: load_data_def bind_err_Inr_iff)
  have len: "length lists = length (rows df)" "length ls = length lists"
    using lists ls by (simp_all add: apply_rows_Inr_iff)
  have "valid_row (rows df ! i) \<and> ls ! i < 9 \<and>
        dict_get MULTICLASS_LABEL_MAP (emotion_A (rows df ! i)) = Inr (ls ! i)"
    if i: "i < length (rows df)" for i
  proof -
    have 1: "label_list (rows df ! i) = Inr (lists ! i)"
      using lists i by (simp add: apply_rows_Inr_iff)
    have 2: "first (lists ! i) = Inr (ls ! i)"
      using ls i len by (simp add: apply_rows_Inr_iff)
    from label_list_Inr [OF 1] obtain a rest where
      "valid_row (rows df ! i)" "lists ! i = a # rest" "a < 9"
      "dict_get MULTICLASS_LABEL_MAP (emotion_A (rows df ! i)) = Inr a"
      by blast
    with 2 show ?thesis by simp
  qed
  with res len show ?thesis by auto
qed

lemma load_data_multiclass_invalid:
  assumes "reader path = Inr df"
    and "\<exists>r \<in> set (rows df). \<not> valid_row r"
  shows "load_data reader path True = Inl KeyError"
proof -
  have "apply_rows label_list (rows df) = Inl KeyError"
  proof (rule apply_rows_Inl)
    show "\<forall>x \<in> set (rows df). \<forall>e'. label_list x = Inl e' \<longrightarrow> e' = KeyError"
      using label_list_Inl by blast
    show "\<exists>x \<in> set (rows df). label_list x = Inl KeyError"
      using assms(2) label_list_invalid by blast
  qed
  with assms(1) show ?thesis by (simp add: load_data_def bind_err_def)
qed

text \<open>
  Claim C9. In multiclass mode \<^verbatim>\<open>load_data\<close> succeeds only when every row is valid (its
  \<^verbatim>\<open>emotion-A\<close> value, and its \<^verbatim>\<open>emotion-B\<close> value when present, is a key of
  \<^verbatim>\<open>MULTICLASS_LABEL_MAP\<close>), and raises \<^verbatim>\<open>KeyError\<close> as soon as some row is not; on
  success every label is below the number of entries of the map, which is 9, the
  \<^verbatim>\<open>num_labels\<close> the model is loaded with.
\<close>

theorem load_data_multiclass_KeyError:
  assumes "reader path = Inr df"
  shows "(\<forall>res. load_data reader path True = Inr res \<longrightarrow>
            (\<forall>r \<in> set (rows df). valid_row r) \<and>
            (\<exists>ls. res = Frame (df\<lparr>labels_col := Some ls\<rparr>) \<and>
                  length ls = length (rows df) \<and>
                  (\<forall>l \<in> set ls. l < length MULTICLASS_LABEL_MAP))) \<and>
         ((\<exists>r \<in> set (rows df). \<not> valid_row r) \<longrightarrow>
            load_data reader path True = Inl KeyError) \<and>
         length MULTICLASS_LABEL_MAP = 9"
proof (intro conjI allI impI)
  fix res
  assume ok: "load_data reader path True = Inr res"
  from load_data_multiclass_Inr [OF assms ok] obtain ls where
    ls: "res = Frame (df\<lparr>labels_col := Some ls\<rparr>)" "length ls = length (rows df)"
      "\<forall>i < length (rows df). valid_row (rows df ! i) \<and> ls ! i < 9"
    by blast
  show "\<forall>r \<in> set (rows df). valid_row r"
    using ls(3) by (auto simp: in_set_conv_nth)
  have nine: "length MULTICLASS_LABEL_MAP = 9"
    by (simp add: MULTICLASS_LABEL_MAP_def)
  have "\<forall>l \<in> set ls. l < length MULTICLASS_LABEL_MAP"
    unfolding nine using ls(2,3) by (auto simp: in_set_conv_nth)
  with ls show "\<exists>ls. res = Frame (df\<lparr>labels_col := Some ls\<rparr>) \<and>
                  length ls = length (rows df) \<and>
                  (\<forall>l \<in> set ls. l < length MULTICLASS_LABEL_MAP)"
    by blast
next
  assume "\<exists>r \<in> set (rows df). \<not> valid_row r"
  with assms show "load_data reader path True = Inl KeyError"
    by (rule load_data_multiclass_invalid)
next
  show "length MULTICLASS_LABEL_MAP = 9"
    by (simp add: MULTICLASS_LABEL_MAP_def)
qed

text \<open>
  Claim C2, as amended. In multiclass mode the label of a row is
  \<^verbatim>\<open>MULTICLASS_LABEL_MAP\<close> at the row's \<^verbatim>\<open>emotion-A\<close> value alone: the second emotion is
  looked up when present, which checks that it is a key, and its number is then dropped
  by the flattening \<^verbatim>\<open>x[0]\<close>.
\<close>

theorem load_data_multiclass_label_from_emotion_A:
  assumes "reader path = Inr df"
    and "load_data reader path True = Inr res"
  shows "\<exists>ls. res = Frame (df\<lparr>labels_col := Some ls\<rparr>) \<and>
           length ls = length (rows df) \<and>
           (\<forall>i < length (rows df).
              dict_get MULTICLASS_LABEL_MAP (emotion_A (rows df ! i)) = Inr (ls ! i))"
  using load_data_multiclass_Inr [OF assms] by blast

text \<open>
  Claim C10. Whatever the texts, the labels and the tokenizer, the second component of
  the result of \<^verbatim>\<open>preprocess_data\<close> is the labels argument as passed, and the first one
  is what the tokenizer returned for the texts.
\<close>

theorem preprocess_data_labels_unchanged:
  assumes "preprocess_data call texts labels tokenizer = Inr res"
  shows "snd res = labels \<and> call tokenizer texts True True 128 = Inr (fst res)"
  using assms by (auto simp: preprocess_data_def bind_err_Inr_iff)


subsection \<open>The statements at sample inputs\<close>

lemmas eval_load =
  load_data_def bind_err_def label_list_def MULTICLASS_LABEL_MAP_def BINARY_LABEL_MAP_def
  dict_keys_def binary_label_def dict_append_def valid_row_def valid_emotion_def

theorem load_data_binary_labels_witness:
  "\<exists>binary_labels.
     load_data (\<lambda>path. Inr reviews) ''reviews.csv'' False
       = Inr (FrameAndLabels reviews binary_labels) \<and>
     length binary_labels = 9 \<and>
     map_of binary_labels ''Joy'' = Some [1, 0] \<and>
     map_of binary_labels ''Trust'' = Some [1, 0] \<and>
     map_of binary_labels ''Anger'' = Some [0, 1] \<and>
     map_of binary_labels ''Neutral'' = Some [0, 0]"
proof -
  have two: "ls = [ls ! 0, ls ! 1]" if "length ls = 2" for ls :: "nat list"
    using that by (cases ls; cases "tl ls") auto
  from load_data_binary_labels [of "\<lambda>path. Inr reviews" "''reviews.csv''" reviews]
  obtain bl where
    1: "load_data (\<lambda>path. Inr reviews) ''reviews.csv'' False = Inr (FrameAndLabels reviews bl)"
    and 2: "length bl = 9"
    and 3: "\<forall>emotion \<in> set (dict_keys MULTICLASS_LABEL_MAP).
       \<exists>ls. map_of bl emotion = Some ls \<and> length ls = length (rows reviews) \<and>
            (\<forall>i < length (rows reviews).
               ls ! i = (if Str emotion = emotion_A (rows reviews ! i)
                            \<or> Str emotion = emotion_B (rows reviews ! i) then 1 else 0))"
    by auto
  have 4: "map_of bl emotion =
      Some [if Str emotion = Str ''Joy'' \<or> Str emotion = Str ''Trust'' then 1 else 0,
            if Str emotion = Str ''Anger'' then 1 else 0]"
    if "emotion \<in> set (dict_keys MULTICLASS_LABEL_MAP)" for emotion
  proof -
    from 3 that obtain ls where
      ls: "map_of bl emotion = Some ls" "length ls = length (rows reviews)"
      "\<forall>i < length (rows reviews).
               ls ! i = (if Str emotion = emotion_A (rows reviews ! i)
                            \<or> Str emotion = emotion_B (rows reviews ! i) then 1 else 0)"
      by blast
    have "length ls = 2" using ls(2) by (simp add: reviews_def)
    from two [OF this] ls(3) have "ls = [if Str emotion = Str ''Joy'' \<or> Str emotion = Str ''Trust'' then 1 else 0,
            if Str emotion = Str ''Anger'' then 1 else 0]"
      by (simp add: reviews_def)
    with ls(1) show ?thesis by simp
  qed
  have "map_of bl ''Joy'' = Some [1, 0]" "map_of bl ''Trust'' = Some [1, 0]"
    "map_of bl ''Anger'' = Some [0, 1]" "map_of bl ''Neutral'' = Some [0, 0]"
    by (simp_all add: 4 dict_keys_def MULTICLASS_LABEL_MAP_def)
  with 1 2 show ?thesis by blast
qed

theorem load_data_multiclass_KeyError_witness:
  "load_data (\<lambda>path. Inr reviews_unknown) ''reviews.csv'' True = Inl KeyError \<and>
   load_data (\<lambda>path. Inr reviews) ''reviews.csv'' True
     = Inr (Frame (reviews\<lparr>labels_col := Some [0, 2]\<rparr>)) \<and>
   list_all valid_row (rows reviews) \<and>
   \<not> list_all valid_row (rows reviews_unknown) \<and>
   list_all (\<lambda>l. l < length MULTICLASS_LABEL_MAP) [0, 2]"
proof -
  have bad: "\<exists>r \<in> set (rows reviews_unknown). \<not> valid_row r"
    by (simp add: reviews_unknown_def valid_row_def valid_emotion_def dict_keys_def
        MULTICLASS_LABEL_MAP_def)
  have ok: "load_data (\<lambda>path. Inr reviews) ''reviews.csv'' True
     = Inr (Frame (reviews\<lparr>labels_col := Some [0, 2]\<rparr>))"
    by (simp add: reviews_def eval_load)
  note a = load_data_multiclass_KeyError [of "\<lambda>path. Inr reviews_unknown" "''reviews.csv''" reviews_unknown]
  note b = load_data_multiclass_KeyError [of "\<lambda>path. Inr reviews" "''reviews.csv''" reviews]
  from a bad have 1: "load_data (\<lambda>path. Inr reviews_unknown) ''reviews.csv'' True = Inl KeyError"
    by blast
  from b ok have 2: "\<forall>r \<in> set (rows reviews). valid_row r"
    by blast
  from b ok obtain ls where "Frame (reviews\<lparr>labels_col := Some [0, 2]\<rparr>) = Frame (reviews\<lparr>labels_col := Some ls\<rparr>)"
    "\<forall>l \<in> set ls. l < length MULTICLASS_LABEL_MAP"
    by blast
  then have 3: "\<forall>l \<in> set [0, 2]. l < length MULTICLASS_LABEL_MAP"
    by (simp add: reviews_def)
  from 1 ok 2 3 bad show ?thesis
    by (simp add: list_all_iff)
qed

text \<open>
  Claim C2, as stated, asks for two rows that agree on \<^verbatim>\<open>emotion-A\<close>, differ in a valid
  \<^verbatim>\<open>emotion-B\<close>, and get different labels. There are none.
\<close>

theorem multiclass_label_depends_on_emotion_B_counterexample:
  "\<not> (\<exists>r1 r2 l1 l2.
        emotion_A r1 = emotion_A r2 \<and> emotion_B r1 \<noteq> emotion_B r2 \<and>
        valid_emotion (emotion_B r1) \<and> valid_emotion (emotion_B r2) \<and>
        load_data (\<lambda>path. Inr \<lparr>rows = [r1, r2], labels_col = None\<rparr>) ''reviews.csv'' True
          = Inr (Frame \<lparr>rows = [r1, r2], labels_col = Some [l1, l2]\<rparr>) \<and>
        l1 \<noteq> l2)"
proof
  assume "\<exists>r1 r2 l1 l2.
        emotion_A r1 = emotion_A r2 \<and> emotion_B r1 \<noteq> emotion_B r2 \<and>
        valid_emotion (emotion_B r1) \<and> valid_emotion (emotion_B r2) \<and>
        load_data (\<lambda>path. Inr \<lparr>rows = [r1, r2], labels_col = None\<rparr>) ''reviews.csv'' True
          = Inr (Frame \<lparr>rows = [r1, r2], labels_col = Some [l1, l2]\<rparr>) \<and>
        l1 \<noteq> l2"
  then obtain r1 r2 l1 l2 where
    same: "emotion_A r1 = emotion_A r2"
    and run: "load_data (\<lambda>path. Inr \<lparr>rows = [r1, r2], labels_col = None\<rparr>) ''reviews.csv'' True
          = Inr (Frame \<lparr>rows = [r1, r2], labels_col = Some [l1, l2]\<rparr>)"
    and diff: "l1 \<noteq> l2"
    by blast
  let ?df = "\<lparr>rows = [r1, r2], labels_col = None\<rparr>"
  from load_data_multiclass_Inr [of "\<lambda>path. Inr ?df" "''reviews.csv''" ?df, OF refl run]
  obtain ls where
    ls: "Frame \<lparr>rows = [r1, r2], labels_col = Some [l1, l2]\<rparr> = Frame (?df\<lparr>labels_col := Some ls\<rparr>)"
    and at: "\<forall>i < length (rows ?df).
       dict_get MULTICLASS_LABEL_MAP (emotion_A (rows ?df ! i)) = Inr (ls ! i)"
    by blast
  from ls have eq: "ls = [l1, l2]" by simp
  have "dict_get MULTICLASS_LABEL_MAP (emotion_A r1) = Inr (ls ! 0)"
    "dict_get MULTICLASS_LABEL_MAP (emotion_A r2) = Inr (ls ! 1)"
    using at [rule_format, of 0] at [rule_format, of 1] by simp_all
  with same eq have "l1 = l2" by simp
  with diff show False by contradiction
qed

theorem load_data_multiclass_label_from_emotion_A_witness:
  "load_data (\<lambda>path. Inr reviews_same_A) ''reviews.csv'' True
     = Inr (Frame (reviews_same_A\<lparr>labels_col := Some [0, 0]\<rparr>)) \<and>
   dict_get MULTICLASS_LABEL_MAP (emotion_A (rows reviews_same_A ! 0)) = Inr 0 \<and>
   dict_get MULTICLASS_LABEL_MAP (emotion_A (rows reviews_same_A ! 1)) = Inr 0 \<and>
   dict_get MULTICLASS_LABEL_MAP (emotion_B (rows reviews_same_A ! 0)) = Inr 1 \<and>
   dict_get MULTICLASS_LABEL_MAP (emotion_B (rows reviews_same_A ! 1)) = Inr 2"
proof -
  have run: "load_data (\<lambda>path. Inr reviews_same_A) ''reviews.csv'' True
     = Inr (Frame (reviews_same_A\<lparr>labels_col := Some [0, 0]\<rparr>))"
    by (simp add: reviews_same_A_def eval_load)
  from load_data_multiclass_label_from_emotion_A
    [of "\<lambda>path. Inr reviews_same_A" "''reviews.csv''" reviews_same_A, OF refl run]
  obtain ls where
    ls: "Frame (reviews_same_A\<lparr>labels_col := Some [0, 0]\<rparr>) = Frame (reviews_same_A\<lparr>labels_col := Some ls\<rparr>)"
    and at: "\<forall>i < length (rows reviews_same_A).
       dict_get MULTICLASS_LABEL_MAP (emotion_A (rows reviews_same_A ! i)) = Inr (ls ! i)"
    by blast
  from ls have eq: "ls = [0, 0]" by (simp add: reviews_same_A_def)
  have len: "length (rows reviews_same_A) = 2" by (simp add: reviews_same_A_def)
  have "dict_get MULTICLASS_LABEL_MAP (emotion_A (rows reviews_same_A ! 0)) = Inr (ls ! 0)"
    "dict_get MULTICLASS_LABEL_MAP (emotion_A (rows reviews_same_A ! 1)) = Inr (ls ! 1)"
    using at [rule_format, of 0] at [rule_format, of 1] len by simp_all
  with eq run show ?thesis
    by (simp add: reviews_same_A_def MULTICLASS_LABEL_MAP_def)
qed

theorem preprocess_data_labels_unchanged_witness:
  "preprocess_data fixed_tokenizer [Str ''great app'', Str ''it crashes''] [0, 2::nat] ()
     = Inr ([(''input_ids'', [[101, 102], [101, 102]]),
             (''attention_mask'', [[1, 1], [1, 1]])], [0, 2]) \<and>
   snd ([(''input_ids'', [[101, 102], [101, 102]]),
         (''attention_mask'', [[1, 1], [1, 1 :: int]])], [0, 2::nat]) = [0, 2]"
proof -
  have run: "preprocess_data fixed_tokenizer [Str ''great app'', Str ''it crashes''] [0, 2::nat] ()
     = Inr ([(''input_ids'', [[101, 102], [101, 102]]),
             (''attention_mask'', [[1, 1], [1, 1]])], [0, 2])"
    by (simp add: preprocess_data_def fixed_tokenizer_def bind_err_def)
  from preprocess_data_labels_unchanged [OF run] run show ?thesis
    by simp
qed


section \<open>Properties of the metrics\<close>

lemma foldl_np_add_Fin: "foldl np_add (Fin a) (map Fin xs) = Fin (a + sum_list xs)"
  by (induction xs arbitrary: a) (simp_all add: add.assoc)

lemma np_mean_Fin:
  assumes "xs \<noteq> []"
  shows "np_mean (map Fin xs) = Fin (arithmetic_mean xs)"
  using assms by (simp add: np_mean_def foldl_np_add_Fin arithmetic_mean_def)

lemma np_mean_empty: "np_mean [] = NaN"
  by (simp add: np_mean_def)

lemma np_mean_of_means:
  assumes "fold_metrics \<noteq> []" and "\<forall>m \<in> set fold_metrics. per_class m \<noteq> []"
  shows "np_mean (map (\<lambda>m. np_mean (map Fin (per_class m))) fold_metrics)
         = Fin (arithmetic_mean (map (\<lambda>m. arithmetic_mean (per_class m)) fold_metrics))"
proof -
  have "map (\<lambda>m. np_mean (map Fin (per_class m))) fold_metrics
        = map Fin (map (\<lambda>m. arithmetic_mean (per_class m)) fold_metrics)"
    using assms(2) by (simp add: np_mean_Fin)
  then show ?thesis
    using assms(1) by (simp add: np_mean_Fin del: map_map)
qed

text \<open>
  Claim C5. For a non-empty list of fold records, \<^verbatim>\<open>aggregate_metrics\<close> returns as
  \<^verbatim>\<open>accuracy\<close> the arithmetic mean over the folds of \<^verbatim>\<open>eval_accuracy\<close>, and as
  \<^verbatim>\<open>precision\<close>, \<^verbatim>\<open>recall\<close> and \<^verbatim>\<open>f1\<close> the arithmetic mean over the folds of each fold's
  mean over its per-class values (where the folds have per-class values to average).
\<close>

theorem aggregate_metrics_means:
  assumes "fold_metrics \<noteq> []"
  shows "accuracy (aggregate_metrics fold_metrics)
           = Fin (arithmetic_mean (map eval_accuracy fold_metrics)) \<and>
         ((\<forall>m \<in> set fold_metrics. eval_precision m \<noteq> []) \<longrightarrow>
            precision (aggregate_metrics fold_metrics)
              = Fin (arithmetic_mean
                       (map (\<lambda>m. arithmetic_mean (eval_precision m)) fold_metrics))) \<and>
         ((\<forall>m \<in> set fold_metrics. eval_recall m \<noteq> []) \<longrightarrow>
            recall (aggregate_metrics fold_metrics)
              = Fin (arithmetic_mean
                       (map (\<lambda>m. arithmetic_mean (eval_recall m)) fold_metrics))) \<and>
         ((\<forall>m \<in> set fold_metrics. eval_f1 m \<noteq> []) \<longrightarrow>
            f1 (aggregate_metrics fold_metrics)
              = Fin (arithmetic_mean
                       (map (\<lambda>m. arithmetic_mean (eval_f1 m)) fold_metrics)))"
proof -
  have "map (\<lambda>m. Fin (eval_accuracy m)) fold_metrics = map Fin (map eval_accuracy fold_metrics)"
    by simp
  then have acc: "accuracy (aggregate_metrics fold_metrics)
           = Fin (arithmetic_mean (map eval_accuracy fold_metrics))"
    using assms by (simp add: aggregate_metrics_def np_mean_Fin del: map_map)
  show ?thesis
    using acc assms by (simp add: aggregate_metrics_def np_mean_of_means)
qed

theorem aggregate_metrics_means_witness:
  "aggregate_metrics two_folds
     = \<lparr>accuracy = Fin (3 / 4), precision = Fin (7 / 8), recall = Fin (7 / 8), f1 = Fin (3 / 4)\<rparr> \<and>
   arithmetic_mean (map eval_accuracy two_folds) = 3 / 4 \<and>
   arithmetic_mean (map (\<lambda>m. arithmetic_mean (eval_precision m)) two_folds) = 7 / 8"
proof -
  have ne: "two_folds \<noteq> []" by (simp add: two_folds_def)
  have 1: "arithmetic_mean (map eval_accuracy two_folds) = 3 / 4"
    "arithmetic_mean (map (\<lambda>m. arithmetic_mean (eval_precision m)) two_folds) = 7 / 8"
    "arithmetic_mean (map (\<lambda>m. arithmetic_mean (eval_recall m)) two_folds) = 7 / 8"
    "arithmetic_mean (map (\<lambda>m. arithmetic_mean (eval_f1 m)) two_folds) = 3 / 4"
    by (simp_all add: two_folds_def arithmetic_mean_def)
  have 2: "\<forall>m \<in> set two_folds. eval_precision m \<noteq> []" "\<forall>m \<in> set two_folds. eval_recall m \<noteq> []"
    "\<forall>m \<in> set two_folds. eval_f1 m \<noteq> []"
    by (simp_all add: two_folds_def)
  from aggregate_metrics_means [OF ne] 1 2
  have "accuracy (aggregate_metrics two_folds) = Fin (3 / 4)"
    "precision (aggregate_metrics two_folds) = Fin (7 / 8)"
    "recall (aggregate_metrics two_folds) = Fin (7 / 8)"
    "f1 (aggregate_metrics two_folds) = Fin (3 / 4)"
    by simp_all
  then have "aggregate_metrics two_folds
     = \<lparr>accuracy = Fin (3 / 4), precision = Fin (7 / 8), recall = Fin (7 / 8), f1 = Fin (3 / 4)\<rparr>"
    by (cases "aggregate_metrics two_folds") simp
  with 1 show ?thesis by simp
qed

lemma argmax_scan_is_argmax:
  assumes "length pre = i" and "is_argmax pre best_i" and "best = pre ! best_i"
  shows "is_argmax (pre @ xs) (argmax_scan xs i best best_i)"
  using assms
proof (induction xs arbitrary: pre i best best_i)
  case Nil
  then show ?case by simp
next
  case (Cons x xs)
  have bi: "best_i < length pre" using Cons.prems(2) by (simp add: is_argmax_def)
  show ?case
  proof (cases "best < x")
    case True
    have "is_argmax (pre @ [x]) i"
      unfolding is_argmax_def
    proof (intro conjI allI impI)
      show "i < length (pre @ [x])" using Cons.prems(1) by simp
    next
      fix k assume "k < length (pre @ [x])"
      then consider "k < length pre" | "k = length pre" by fastforce
      then show "(pre @ [x]) ! k \<le> (pre @ [x]) ! i"
      proof cases
        case 1
        then have "pre ! k \<le> pre ! best_i" using Cons.prems(2) by (simp add: is_argmax_def)
        with 1 True Cons.prems(1,3) show ?thesis by (simp add: nth_append)
      next
        case 2
        with Cons.prems(1) show ?thesis by simp
      qed
    next
      fix k assume k: "k < i"
      then have "pre ! k \<le> pre ! best_i" using Cons.prems(1,2) by (simp add: is_argmax_def)
      with k True Cons.prems(1,3) show "(pre @ [x]) ! k < (pre @ [x]) ! i"
        by (simp add: nth_append)
    qed
    moreover have "length (pre @ [x]) = Suc i" "x = (pre @ [x]) ! i"
      using Cons.prems(1) by (simp_all add: nth_append)
    ultimately have "is_argmax ((pre @ [x]) @ xs) (argmax_scan xs (Suc i) x i)"
      by (intro Cons.IH)
    with True show ?thesis by simp
  next
    case False
    have "is_argmax (pre @ [x]) best_i"
      unfolding is_argmax_def
    proof (intro conjI allI impI)
      show "best_i < length (pre @ [x])" using bi by simp
    next
      fix k assume "k < length (pre @ [x])"
      then consider "k < length pre" | "k = length pre" by fastforce
      then show "(pre @ [x]) ! k \<le> (pre @ [x]) ! best_i"
      proof cases
        case 1
        then have "pre ! k \<le> pre ! best_i" using Cons.prems(2) by (simp add: is_argmax_def)
        with 1 bi show ?thesis by (simp add: nth_append)
      next
        case 2
        with False bi Cons.prems(3) show ?thesis by (simp add: nth_append)
      qed
    next
      fix k assume k: "k < best_i"
      then have "pre ! k < pre ! best_i" using Cons.prems(2) by (simp add: is_argmax_def)
      with k bi show "(pre @ [x]) ! k < (pre @ [x]) ! best_i"
        by (simp add: nth_append)
    qed
    moreover have "length (pre @ [x]) = Suc i" "best = (pre @ [x]) ! best_i"
      using Cons.prems(1,3) bi by (simp_all add: nth_append)
    ultimately have "is_argmax ((pre @ [x]) @ xs) (argmax_scan xs (Suc i) best best_i)"
      by (intro Cons.IH)
    with False show ?thesis by simp
  qed
qed

lemma argmax_is_argmax:
  assumes "scores \<noteq> []"
  shows "\<exists>j. argmax scores = Inr j \<and> is_argmax scores j"
proof (cases scores)
  case Nil
  with assms show ?thesis by simp
next
  case (Cons x xs)
  have "is_argmax [x] 0" by (simp add: is_argmax_def)
  from argmax_scan_is_argmax [of "[x]" 1 0 x xs, OF _ this]
  have "is_argmax (x # xs) (argmax_scan xs 1 x 0)" by simp
  with Cons show ?thesis by simp
qed

lemma length_filter_zip_card:
  assumes "length xs = length ys"
  shows "length (filter (\<lambda>(t, p). P t p) (zip xs ys))
         = card {i. i < length xs \<and> P (xs ! i) (ys ! i)}"
proof -
  have "{i. i < length (zip xs ys) \<and> (case zip xs ys ! i of (t, p) \<Rightarrow> P t p)}
        = {i. i < length xs \<and> P (xs ! i) (ys ! i)}"
    using assms by auto
  then show ?thesis
    by (simp add: length_filter_conv_card)
qed

lemma count_list_card: "count_list ys c = card {i. i < length ys \<and> ys ! i = c}"
proof -
  have "count_list ys c = length (filter ((=) c) ys)"
    by (simp add: count_list_eq_length_filter)
  also have "\<dots> = card {i. i < length ys \<and> c = ys ! i}"
    by (simp add: length_filter_conv_card)
  also have "{i. i < length ys \<and> c = ys ! i} = {i. i < length ys \<and> ys ! i = c}"
    by auto
  finally show ?thesis .
qed

lemma true_positives_card:
  assumes "length y_true = length y_pred"
  shows "true_positives y_true y_pred c = card (hits y_true y_pred c)"
  unfolding true_positives_def hits_def
  using length_filter_zip_card [OF assms, of "\<lambda>t p. t = c \<and> p = c"] by simp

lemma class_precision_share:
  assumes "length y_true = length y_pred"
  shows "class_precision y_true y_pred c = share (hits y_true y_pred c) (labelled y_pred c)"
  by (simp add: class_precision_def ratio_def share_def true_positives_card [OF assms]
      count_list_card labelled_def)

lemma class_recall_share:
  assumes "length y_true = length y_pred"
  shows "class_recall y_true y_pred c = share (hits y_true y_pred c) (labelled y_true c)"
  by (simp add: class_recall_def ratio_def share_def true_positives_card [OF assms]
      count_list_card labelled_def)

lemma class_f1_harmonic:
  assumes "length y_true = length y_pred"
  shows "class_f1 y_true y_pred c =
    harmonic_mean (share (hits y_true y_pred c) (labelled y_pred c))
                  (share (hits y_true y_pred c) (labelled y_true c))"
  by (simp add: class_f1_def Let_def harmonic_mean_def class_precision_share [OF assms]
      class_recall_share [OF assms])

lemma classes_of_sorted: "classes_of y_true y_pred = sorted_list_of_set (set y_true \<union> set y_pred)"
  using sorted_list_of_set_sort_remdups [of "y_true @ y_pred"] by (simp add: classes_of_def)

lemma apply_rows_total:
  assumes "\<forall>x \<in> set xs. \<exists>y. f x = Inr y \<and> Q x y"
  shows "\<exists>ys. apply_rows f xs = Inr ys \<and> length ys = length xs
              \<and> (\<forall>i < length xs. Q (xs ! i) (ys ! i))"
  using assms
proof (induction xs)
  case Nil
  then show ?case by simp
next
  case (Cons x xs)
  then obtain y ys where y: "f x = Inr y" "Q x y"
    and ys: "apply_rows f xs = Inr ys" "length ys = length xs"
      "\<forall>i < length xs. Q (xs ! i) (ys ! i)"
    by auto
  have "\<forall>i < length (x # xs). Q ((x # xs) ! i) ((y # ys) ! i)"
    using y(2) ys(3) by (auto simp: nth_Cons split: nat.splits)
  with y(1) ys(1,2) show ?case by (auto simp: bind_err_def)
qed

text \<open>
  Claim C6. For a non-empty batch of score rows with as many labels, \<^verbatim>\<open>compute_metrics\<close>
  returns a record. The predicted class of each sample is the argmax of its row of
  scores; \<^verbatim>\<open>accuracy\<close> is the fraction of samples whose predicted class equals the label;
  \<^verbatim>\<open>precision\<close>, \<^verbatim>\<open>recall\<close> and \<^verbatim>\<open>f1\<close> are lists with one entry per class occurring among
  labels and predictions, in ascending order: the class's own precision, recall and F1
  score, not averaged over the classes.
\<close>

theorem compute_metrics_argmax_accuracy:
  assumes "preds \<noteq> []" and "length preds = length labels"
    and "\<forall>scores \<in> set preds. scores \<noteq> []"
  shows "\<exists>cls m.
     compute_metrics (preds, labels) = Inr m \<and>
     length cls = length preds \<and>
     (\<forall>i < length preds. is_argmax (preds ! i) (cls ! i)) \<and>
     accuracy m = real (card {i. i < length labels \<and> cls ! i = labels ! i})
                  / real (length labels) \<and>
     precision m = map (\<lambda>c. share (hits labels cls c) (labelled cls c))
                     (sorted_list_of_set (set labels \<union> set cls)) \<and>
     recall m = map (\<lambda>c. share (hits labels cls c) (labelled labels c))
                  (sorted_list_of_set (set labels \<union> set cls)) \<and>
     f1 m = map (\<lambda>c. harmonic_mean (share (hits labels cls c) (labelled cls c))
                                    (share (hits labels cls c) (labelled labels c)))
              (sorted_list_of_set (set labels \<union> set cls))"
proof -
  from apply_rows_total [of preds argmax is_argmax] assms(3) argmax_is_argmax
  obtain cls where cls: "apply_rows argmax preds = Inr cls" "length cls = length preds"
    "\<forall>i < length preds. is_argmax (preds ! i) (cls ! i)"
    by blast
  have len: "length labels = length cls" "labels \<noteq> []"
    using assms(1,2) cls(2) by auto
  have acc: "accuracy_score labels cls
      = Inr (real (card {i. i < length labels \<and> cls ! i = labels ! i}) / real (length labels))"
  proof -
    have "{i. i < length labels \<and> labels ! i = cls ! i} = {i. i < length labels \<and> cls ! i = labels ! i}"
      by auto
    with length_filter_zip_card [OF len(1), of "(=)"] len show ?thesis
      by (simp add: accuracy_score_def)
  qed
  let ?m = "\<lparr>accuracy = real (card {i. i < length labels \<and> cls ! i = labels ! i}) / real (length labels),
            precision = map (class_precision labels cls) (classes_of labels cls),
            recall = map (class_recall labels cls) (classes_of labels cls),
            f1 = map (class_f1 labels cls) (classes_of labels cls)\<rparr>"
  have run: "compute_metrics (preds, labels) = Inr ?m"
    using len by (simp add: compute_metrics_def cls(1) acc bind_err_def
        precision_recall_fscore_support_def Let_def)
  have p: "precision ?m = map (\<lambda>c. share (hits labels cls c) (labelled cls c))
                     (sorted_list_of_set (set labels \<union> set cls))"
    by (simp add: classes_of_sorted class_precision_share [OF len(1)])
  have r: "recall ?m = map (\<lambda>c. share (hits labels cls c) (labelled labels c))
                  (sorted_list_of_set (set labels \<union> set cls))"
    by (simp add: classes_of_sorted class_recall_share [OF len(1)])
  have f: "f1 ?m = map (\<lambda>c. harmonic_mean (share (hits labels cls c) (labelled cls c))
                                    (share (hits labels cls c) (labelled labels c)))
              (sorted_list_of_set (set labels \<union> set cls))"
    by (simp add: classes_of_sorted class_f1_harmonic [OF len(1)])
  show ?thesis
    using run cls(2,3) p r f by (intro exI [of _ cls] exI [of _ ?m]) simp
qed

theorem compute_metrics_argmax_accuracy_witness:
  "compute_metrics (sample_scores, [1, 0, 0])
     = Inr \<lparr>accuracy = 2 / 3, precision = [1, 1 / 2], recall = [1 / 2, 1],
            f1 = [2 / 3, 2 / 3]\<rparr> \<and>
   is_argmax (sample_scores ! 0) 1 \<and> is_argmax (sample_scores ! 1) 0 \<and>
   is_argmax (sample_scores ! 2) 1"
proof -
  have run: "compute_metrics (sample_scores, [1, 0, 0])
     = Inr \<lparr>accuracy = 2 / 3, precision = [1, 1 / 2], recall = [1 / 2, 1],
            f1 = [2 / 3, 2 / 3]\<rparr>"
    by (simp add: compute_metrics_def sample_scores_def bind_err_def accuracy_score_def
        precision_recall_fscore_support_def classes_of_def class_precision_def
        class_recall_def class_f1_def true_positives_def ratio_def Let_def)
  have pre: "sample_scores \<noteq> []" "length sample_scores = length [1, 0, 0 :: nat]"
    "\<forall>scores \<in> set sample_scores. scores \<noteq> []"
    by (simp_all add: sample_scores_def)
  from compute_metrics_argmax_accuracy [OF pre] obtain cls m where
    m: "compute_metrics (sample_scores, [1, 0, 0]) = Inr m"
    and cls: "length cls = length sample_scores"
      "\<forall>i < length sample_scores. is_argmax (sample_scores ! i) (cls ! i)"
    and acc: "accuracy m = real (card {i. i < length [1, 0, 0 :: nat] \<and> cls ! i = [1, 0, 0] ! i})
                  / real (length [1, 0, 0 :: nat])"
    by blast
  have arg: "is_argmax (sample_scores ! 0) 1" "is_argmax (sample_scores ! 1) 0"
    "is_argmax (sample_scores ! 2) 1"
    by (simp_all add: sample_scores_def is_argmax_def less_Suc_eq numeral_2_eq_2)
  from run m arg show ?thesis by simp
qed

section \<open>Properties of the pipeline\<close>

lemma bind_fs_Inr_iff:
  "bind_fs m f = (Inr y, fs') \<longleftrightarrow> (\<exists>x fs1. m = (Inr x, fs1) \<and> f x fs1 = (Inr y, fs'))"
  by (cases m; cases "fst m") (auto simp: bind_fs_def)

lemma to_csv_Inr:
  assumes "to_csv table path fs = (Inr u, fs')"
  shows "fs' = fs\<lparr>files := (files fs)(path \<mapsto> table)\<rparr>"
  using assms by (auto simp: to_csv_def Let_def split: if_splits)

lemma run_folds_Inr:
  assumes "run_folds lib mid tok texts labels mc out i splits acc fs = (Inr res, fs')"
  shows "\<exists>ms. length ms = length splits \<and>
           fst res = fst acc @ ms \<and>
           snd res = snd acc @ zip [Suc i..<Suc i + length splits] ms"
  using assms
proof (induction splits arbitrary: i acc fs)
  case Nil
  then show ?case by simp
next
  case (Cons s splits)
  from Cons.prems obtain m fs1 where
    rest: "run_folds lib mid tok texts labels mc out (Suc i) splits
                 (fst acc @ [m], snd acc @ [(i + 1, m)]) fs1 = (Inr res, fs')"
    by (auto simp: bind_fs_Inr_iff)
  from Cons.IH [OF rest] obtain ms where
    ms: "length ms = length splits"
      "fst res = (fst acc @ [m]) @ ms"
      "snd res = (snd acc @ [(i + 1, m)]) @ zip [Suc (Suc i)..<Suc (Suc i) + length splits] ms"
    by auto
  have "[Suc i..<Suc i + length (s # splits)]
        = Suc i # [Suc (Suc i)..<Suc i + length (s # splits)]"
    by (rule upt_conv_Cons) simp
  then have "[Suc i..<Suc i + length (s # splits)]
        = Suc i # [Suc (Suc i)..<Suc (Suc i) + length splits]"
    by simp
  then have zip: "zip [Suc i..<Suc i + length (s # splits)] (m # ms)
             = (i + 1, m) # zip [Suc (Suc i)..<Suc (Suc i) + length splits] ms"
    by simp
  show ?case
    using ms(1,2,3) zip by (intro exI [of _ "m # ms"]) simp
qed

text \<open>
  What one pass of the loop does when it succeeds: the texts and labels are taken at the
  train and at the test indices and each part is tokenized and made a dataset; a model is
  loaded from the model id (with 9 labels in multiclass mode, 2 otherwise); the trainer
  gets that model with the train part as its training set and the test part as its
  evaluation set; and the metrics of the fold are those the trainer reports after
  training.
\<close>

lemma fold_datasets_Inr:
  assumes "fold_datasets call tok texts labels (train_idx, test_idx) = Inr (train_set, test_set)"
  shows "\<exists>train_texts train_labels test_texts test_labels train_enc test_enc.
     take_indices texts train_idx = Inr train_texts \<and>
     take_indices labels train_idx = Inr train_labels \<and>
     take_indices texts test_idx = Inr test_texts \<and>
     take_indices labels test_idx = Inr test_labels \<and>
     call tok train_texts True True 128 = Inr train_enc \<and>
     call tok test_texts True True 128 = Inr test_enc \<and>
     make_dataset train_enc train_labels = Inr train_set \<and>
     make_dataset test_enc test_labels = Inr test_set"
  using assms
  unfolding fold_datasets_def preprocess_data_def
  by (auto simp: bind_err_Inr_iff)

lemma run_fold_Inr:
  assumes "run_fold lib mid tok texts labels mc out i fold_split fs = (Inr m, fs')"
  shows "\<exists>train_set test_set model trained fs1 fs2.
     fold_datasets (tokenizer_call lib) tok texts labels fold_split = Inr (train_set, test_set) \<and>
     model_from_pretrained lib mid (if mc then 9 else 2) fs = (Inr model, fs1) \<and>
     trainer_train lib (fold_trainer out i model train_set test_set) fs1 = (Inr trained, fs2) \<and>
     trainer_evaluate lib
       ((fold_trainer out i model train_set test_set)\<lparr>trainer_model := trained\<rparr>) fs2
       = (Inr m, fs')"
proof -
  have nine: "length MULTICLASS_LABEL_MAP = 9"
    by (simp add: MULTICLASS_LABEL_MAP_def)
  show ?thesis
    using assms
    unfolding run_fold_def Let_def nine
    by (auto simp: bind_fs_Inr_iff split: sum.splits)
qed

lemma fold_metrics_path: "os_path_join ''./evaluation'' ''fold_metrics.csv'' = ''./evaluation/fold_metrics.csv''"
  by (simp add: os_path_join_def)

lemma fold_metrics_dirname: "os_path_dirname ''./evaluation/fold_metrics.csv'' = ''./evaluation''"
  by (simp add: os_path_dirname_def)

lemma average_path_relative:
  assumes "mid = [] \<or> hd mid \<noteq> CHR ''/''"
  shows "os_path_join ''./evaluation'' (mid @ ''-multiclass_metrics.csv'')
         = ''./evaluation/'' @ mid @ ''-multiclass_metrics.csv''"
  using assms by (cases mid) (auto simp: os_path_join_def)

lemma average_path_absolute:
  assumes "mid \<noteq> []" "hd mid = CHR ''/''"
  shows "os_path_join ''./evaluation'' (mid @ ''-multiclass_metrics.csv'')
         = mid @ ''-multiclass_metrics.csv''"
  using assms by (cases mid) (auto simp: os_path_join_def)

lemma cross_validate_model_Inr:
  assumes "cross_validate_model lib mid tid texts labels k mc out g fs = (Inr avg, fs2)"
  shows "\<exists>tok fs0 splits ms fs1.
           tokenizer_from_pretrained lib tid fs = (Inr tok, fs0) \<and>
           stratified_splits lib k texts labels g = Inr splits \<and>
           length ms = length splits \<and>
           run_folds lib mid tok texts labels mc out 0 splits ([], []) fs0
             = (Inr (ms, zip [1..<Suc (length splits)] ms), fs1) \<and>
           avg = aggregate_metrics ms \<and>
           fs2 = fs1\<lparr>files := (files fs1)(os_path_join out ''fold_metrics.csv''
                     \<mapsto> FoldTable (zip [1..<Suc (length splits)] ms))\<rparr>"
proof -
  from assms obtain tok fs0 splits fm fdm fs1 u where
    tok: "tokenizer_from_pretrained lib tid fs = (Inr tok, fs0)"
    and splits: "stratified_splits lib k texts labels g = Inr splits"
    and run: "run_folds lib mid tok texts labels mc out 0 splits ([], []) fs0
               = (Inr (fm, fdm), fs1)"
    and csv: "to_csv (FoldTable fdm) (os_path_join out ''fold_metrics.csv'') fs1 = (Inr u, fs2)"
    and avg: "avg = aggregate_metrics fm"
    unfolding cross_validate_model_def
    by (auto simp: bind_fs_Inr_iff)
  from run_folds_Inr [OF run] have
    ms: "length fm = length splits" "fdm = zip [1..<Suc (length splits)] fm"
    by auto
  from to_csv_Inr [OF csv] tok splits ms avg run show ?thesis
    by blast
qed

text \<open>
  Claim C1 says that a run in binary mode goes through the whole pipeline without an
  error. The code does the opposite: whatever the CSV that was read, \<^verbatim>\<open>main\<close> in binary
  mode raises \<^verbatim>\<open>TypeError\<close> in \<^verbatim>\<open>display_emotion_counts\<close>, which receives the pair that
  \<^verbatim>\<open>load_data\<close> returns in this mode, and nothing is written.
\<close>

theorem main_binary_mode_raises:
  assumes "read_csv lib (input_csv a) = Inr df" and "\<not> multiclass a"
  shows "main lib a g fs = (Inl TypeError, fs)"
proof -
  from assms(2) have mode: "multiclass a = False" by simp
  have "load_data (read_csv lib) (input_csv a) (multiclass a) =
      Inr (FrameAndLabels df
        (map (\<lambda>emotion. (emotion, map (\<lambda>r. positive_if r emotion) (rows df)))
           (dict_keys MULTICLASS_LABEL_MAP)))"
    unfolding mode using assms(1) by (rule load_data_binary_eq)
  then show ?thesis
    by (simp add: main_def)
qed

text \<open>
  Claim C7 places the averaged metrics under \<^verbatim>\<open>./evaluation\<close>. The code joins that
  directory with a file name that starts with the model id as given, and misses the ids
  that hold a slash. For an id that starts with one (a local model directory), a
  multiclass run that returns normally has read the CSV, created \<^verbatim>\<open>./evaluation\<close>,
  completed cross-validation on the sentences and labels of the frame, and then written
  the one-row table of averages to the absolute path
  \<^verbatim>\<open>{model-id}-multiclass_metrics.csv\<close>: the last step changes that file and nothing else.
\<close>

theorem main_average_file_at_absolute_path:
  assumes "main lib a g fs = (Inr (), fs')" and "multiclass a"
    and "model_id a \<noteq> []" and "hd (model_id a) = CHR ''/''"
  shows "\<exists>df ls fs1 avg fs2.
     read_csv lib (input_csv a) = Inr df \<and>
     load_data (read_csv lib) (input_csv a) True = Inr (Frame (df\<lparr>labels_col := Some ls\<rparr>)) \<and>
     os_makedirs ''./evaluation'' fs = (Inr (), fs1) \<and>
     cross_validate_model lib (model_id a) (tokenizer_id a) (map sentence (rows df)) ls 10 True
       ''./evaluation'' g fs1 = (Inr avg, fs2) \<and>
     os_path_join ''./evaluation'' (model_id a @ ''-multiclass_metrics.csv'')
       = model_id a @ ''-multiclass_metrics.csv'' \<and>
     fs' = fs2\<lparr>files := (files fs2)(model_id a @ ''-multiclass_metrics.csv''
                  \<mapsto> AverageTable [avg])\<rparr>"
proof -
  note mc = assms(2)
  have path: "os_path_join ''./evaluation'' (model_id a @ ''-multiclass_metrics.csv'')
       = model_id a @ ''-multiclass_metrics.csv''"
    using assms(3,4) by (rule average_path_absolute)
  from assms(1) mc obtain res texts labels fs1 avg fs2 where
    load: "load_data (read_csv lib) (input_csv a) True = Inr res"
    and texts: "column_sentence res = Inr texts"
    and labels: "column_labels res = Inr labels"
    and mk: "os_makedirs ''./evaluation'' fs = (Inr (), fs1)"
    and cv: "cross_validate_model lib (model_id a) (tokenizer_id a) texts labels 10 True
               ''./evaluation'' g fs1 = (Inr avg, fs2)"
    and save: "save_metrics avg
               (os_path_join ''./evaluation'' (model_id a @ ''-'' @ ''multiclass'' @ ''_metrics.csv''))
               fs2 = (Inr (), fs')"
    unfolding main_def
    by (auto simp: bind_fs_Inr_iff split: sum.splits)
  from load obtain df where df: "read_csv lib (input_csv a) = Inr df"
    by (cases "read_csv lib (input_csv a)") (simp_all add: load_data_def bind_err_def)
  from load_data_multiclass_Inr [OF df load] obtain ls where
    res: "res = Frame (df\<lparr>labels_col := Some ls\<rparr>)"
    by blast
  from texts labels res have tl: "texts = map sentence (rows df)" "labels = ls"
    by simp_all
  from save path have "to_csv (AverageTable [avg]) (model_id a @ ''-multiclass_metrics.csv'') fs2
      = (Inr (), fs')"
    by (simp add: save_metrics_def)
  from to_csv_Inr [OF this] have
    fs': "fs' = fs2\<lparr>files := (files fs2)(model_id a @ ''-multiclass_metrics.csv''
                  \<mapsto> AverageTable [avg])\<rparr>" .
  from df load res mk cv tl path fs' show ?thesis
    by blast
qed

text \<open>
  Claim C8. The splits of \<^verbatim>\<open>cross_validate_model\<close> are those of a splitter built with
  \<^verbatim>\<open>shuffle=True\<close> and the fixed seed 42. For a library whose seeded splitter does not
  draw from the global generator, two executions on the same texts and labels get the
  same sequence of splits, whatever the states of the generator they start in.
\<close>

theorem stratified_splits_deterministic:
  assumes "honours_seed lib"
  shows "stratified_splits lib k texts labels g = stratified_splits lib k texts labels g'"
  using assms unfolding honours_seed_def stratified_splits_def by blast

subsection \<open>The sample run\<close>

theorem main_binary_mode_raises_witness:
  "main (sample_library reviews) binary_args 0 fresh_disk = (Inl TypeError, fresh_disk)"
proof -
  have 1: "read_csv (sample_library reviews) (input_csv binary_args) = Inr reviews"
    by (simp add: sample_library_def binary_args_def)
  have 2: "\<not> multiclass binary_args"
    by (simp add: binary_args_def)
  from main_binary_mode_raises [OF 1 2] show ?thesis .
qed

lemma replicate10: "replicate 10 x = [x, x, x, x, x, x, x, x, x, x]"
  by (simp add: numeral_eq_Suc)

lemma load10: "load_data (read_csv (sample_library reviews10)) ''reviews.csv'' True
   = Inr (Frame (reviews10\<lparr>labels_col := Some (replicate 10 0)\<rparr>))"
  by (simp add: sample_library_def reviews10_def eval_load replicate10)

lemma split10:
  "round_robin_split 10 True (Some 42) 0 texts10 (replicate 10 0) = Inr leave_one_out10"
  by code_simp

lemma sample_honours_seed: "honours_seed (sample_library df)"
  by (simp add: honours_seed_def sample_library_def round_robin_split_def)

lemma sample_splits:
  "stratified_splits (sample_library reviews10) 10 texts10 (replicate 10 0) g = Inr leave_one_out10"
proof -
  have "stratified_splits (sample_library reviews10) 10 texts10 (replicate 10 0) g
      = round_robin_split 10 True (Some 42) 0 texts10 (replicate 10 0)"
    by (simp add: stratified_splits_def sample_library_def round_robin_split_def)
  then show ?thesis by (simp only: split10)
qed

theorem stratified_splits_deterministic_witness:
  "honours_seed (sample_library reviews10) \<and>
   stratified_splits (sample_library reviews10) 10 texts10 (replicate 10 0) 0
     = stratified_splits (sample_library reviews10) 10 texts10 (replicate 10 0) 7 \<and>
   stratified_splits (sample_library reviews10) 10 texts10 (replicate 10 0) 7
     = Inr leave_one_out10"
  using stratified_splits_deterministic [OF sample_honours_seed, of reviews10 10 texts10
      "replicate 10 0" 0 7] sample_honours_seed [of reviews10] sample_splits [of 7]
  by simp

text \<open>
  Without the seed the same splitter, which honours its seeds, does depend on the state
  of the generator.
\<close>

lemma unseeded_splits_depend_on_generator:
  "skf_split (sample_library reviews10) 10 True None 0 texts10 (replicate 10 0)
   \<noteq> skf_split (sample_library reviews10) 10 True None 1 texts10 (replicate 10 0)"
  by code_simp

lemmas eval_fold =
  fold_datasets_def take_indices_def index_def bind_err_def preprocess_data_def fixed_tokenizer_def
  make_dataset_def dataset_item_def dict_union_def dict_keys_def

lemma sample_fold_datasets:
  assumes "fold_split \<in> set leave_one_out10"
  shows "\<exists>train_set test_set.
     fold_datasets fixed_tokenizer () texts10 (replicate 10 0) fold_split
       = Inr (train_set, test_set)"
  using assms unfolding leave_one_out10_def texts10_def
  by (auto simp: eval_fold numeral_eq_Suc)

lemma sample_run_fold:
  assumes "fold_split \<in> set leave_one_out10"
  shows "run_fold (sample_library reviews10) mid () texts10 (replicate 10 0) True out i fold_split fs
         = (Inr perfect_fold, write_checkpoint (os_path_join out (''fold-'' @ str_nat i)) fs)"
proof -
  from sample_fold_datasets [OF assms] obtain train_set test_set where
    "fold_datasets fixed_tokenizer () texts10 (replicate 10 0) fold_split
       = Inr (train_set, test_set)"
    by blast
  then show ?thesis
    by (simp add: run_fold_def sample_library_def bind_fs_def fold_trainer_def
        fold_training_args_def Let_def)
qed

lemma sample_run_folds:
  assumes "set splits \<subseteq> set leave_one_out10"
  shows "run_folds (sample_library reviews10) mid () texts10 (replicate 10 0) True out i
           splits acc fs
         = (Inr (fst acc @ replicate (length splits) perfect_fold,
                 snd acc @ zip [Suc i..<Suc i + length splits]
                               (replicate (length splits) perfect_fold)),
            write_checkpoints out [i..<i + length splits] fs)"
  using assms
proof (induction splits arbitrary: i acc fs)
  case Nil
  then show ?case by simp
next
  case (Cons s splits)
  have s: "s \<in> set leave_one_out10" and rest: "set splits \<subseteq> set leave_one_out10"
    using Cons.prems by simp_all
  have "[i..<i + length (s # splits)] = i # [Suc i..<i + length (s # splits)]"
    by (rule upt_conv_Cons) simp
  then have up1: "[i..<i + length (s # splits)] = i # [Suc i..<Suc i + length splits]"
    by simp
  have "[Suc i..<Suc i + length (s # splits)]
        = Suc i # [Suc (Suc i)..<Suc i + length (s # splits)]"
    by (rule upt_conv_Cons) simp
  then have up2: "[Suc i..<Suc i + length (s # splits)]
        = Suc i # [Suc (Suc i)..<Suc (Suc i) + length splits]"
    by simp
  show ?case
    unfolding up1 up2
    by (simp add: sample_run_fold [OF s] bind_fs_def Cons.IH [OF rest] replicate_app_Cons_same)
qed

lemma dirs_write_checkpoints:
  "dirs (write_checkpoints out js fs)
   = dirs fs \<union> (\<lambda>j. os_path_join out (''fold-'' @ str_nat j)) ` set js"
  by (induction js arbitrary: fs) (auto simp: write_checkpoint_def)

lemma sample_average: "aggregate_metrics (replicate 10 perfect_fold) = perfect_average"
  by (simp add: replicate10 aggregate_metrics_def np_mean_def perfect_fold_def
      perfect_average_def)

lemma sample_cross_validate:
  assumes "''./evaluation'' \<in> dirs fs"
  shows "cross_validate_model (sample_library reviews10) mid tid texts10 (replicate 10 0) 10 True
           ''./evaluation'' g fs
         = (Inr perfect_average,
            (write_checkpoints ''./evaluation'' [0..<10] fs)
              \<lparr>files := (files (write_checkpoints ''./evaluation'' [0..<10] fs))
                 (''./evaluation/fold_metrics.csv''
                   \<mapsto> FoldTable (zip [1..<11] (replicate 10 perfect_fold)))\<rparr>)"
proof -
  have tok: "tokenizer_from_pretrained (sample_library reviews10) tid fs = (Inr (), fs)"
    by (simp add: sample_library_def)
  have len: "length leave_one_out10 = 10"
    by (simp add: leave_one_out10_def)
  have run: "run_folds (sample_library reviews10) mid () texts10 (replicate 10 0) True
      ''./evaluation'' 0 leave_one_out10 ([], []) fs
      = (Inr (replicate 10 perfect_fold, zip [1..<11] (replicate 10 perfect_fold)),
         write_checkpoints ''./evaluation'' [0..<10] fs)"
    using sample_run_folds [of leave_one_out10 mid "''./evaluation''" 0 "([], [])" fs]
    by (simp add: len)
  have dir: "''./evaluation'' \<in> dirs (write_checkpoints ''./evaluation'' [0..<10] fs)"
    using assms unfolding dirs_write_checkpoints by blast
  have csv: "to_csv (FoldTable (zip [1..<11] (replicate 10 perfect_fold)))
       ''./evaluation/fold_metrics.csv'' (write_checkpoints ''./evaluation'' [0..<10] fs)
     = (Inr (), (write_checkpoints ''./evaluation'' [0..<10] fs)
              \<lparr>files := (files (write_checkpoints ''./evaluation'' [0..<10] fs))
                 (''./evaluation/fold_metrics.csv''
                   \<mapsto> FoldTable (zip [1..<11] (replicate 10 perfect_fold)))\<rparr>)"
    using dir by (simp only: to_csv_def fold_metrics_dirname Let_def simp_thms if_True)
  show ?thesis
    by (simp only: cross_validate_model_def tok sample_splits run csv fold_metrics_path
        sample_average bind_fs_def prod.case sum.case)
qed

lemma sample_main:
  assumes "multiclass a" and "input_csv a = ''reviews.csv''"
  shows "main (sample_library reviews10) a g fresh_disk
         = save_metrics perfect_average
             (os_path_join ''./evaluation'' (model_id a @ ''-multiclass_metrics.csv''))
             trained_disk"
proof -
  let ?df = "Frame (reviews10\<lparr>labels_col := Some (replicate 10 0)\<rparr>)"
  let ?fs1 = "fresh_disk\<lparr>dirs := insert ''./evaluation'' (dirs fresh_disk)\<rparr>"
  have load: "load_data (read_csv (sample_library reviews10)) (input_csv a) (multiclass a)
     = Inr ?df"
    using assms load10 by simp
  have disp: "display_emotion_counts ?df = Inr ()"
    by simp
  have texts: "column_sentence ?df = Inr texts10"
    by (simp add: reviews10_def texts10_def)
  have labels: "column_labels ?df = Inr (replicate 10 0)"
    by simp
  have mk: "os_makedirs ''./evaluation'' fresh_disk = (Inr (), ?fs1)"
    by (simp add: os_makedirs_def fresh_disk_def)
  have dir: "''./evaluation'' \<in> dirs ?fs1"
    by simp
  have cv: "cross_validate_model (sample_library reviews10) (model_id a) (tokenizer_id a)
              texts10 (replicate 10 0) 10 (multiclass a) ''./evaluation'' g ?fs1
            = (Inr perfect_average, trained_disk)"
    using assms(1) sample_cross_validate [OF dir, of "model_id a" "tokenizer_id a" g]
    by (simp only: trained_disk_def Let_def simp_thms)
  have name: "model_id a @ ''-'' @ (if multiclass a then ''multiclass'' else ''binary'')
                @ ''_metrics.csv'' = model_id a @ ''-multiclass_metrics.csv''"
    using assms(1) by simp
  show ?thesis
    by (simp only: main_def load disp texts labels mk cv name bind_fs_def sum.case prod.case)
qed

lemma dirs_trained_disk:
  "dirs trained_disk
   = {''/models'', ''./evaluation''}
     \<union> (\<lambda>j. ''./evaluation/fold-'' @ str_nat j) ` {0..<10}"
  by (auto simp: trained_disk_def Let_def dirs_write_checkpoints fresh_disk_def os_path_join_def)

lemma local_model_run:
  "main (sample_library reviews10) local_model_args 0 fresh_disk
   = (Inr (),
      trained_disk\<lparr>files := (files trained_disk)(''/models/bert-multiclass_metrics.csv''
                      \<mapsto> AverageTable [perfect_average])\<rparr>)"
proof -
  have a: "multiclass local_model_args" "input_csv local_model_args = ''reviews.csv''"
    by (simp_all add: local_model_args_def)
  have path: "os_path_join ''./evaluation'' (model_id local_model_args @ ''-multiclass_metrics.csv'')
      = ''/models/bert-multiclass_metrics.csv''"
    by (simp add: os_path_join_def local_model_args_def)
  have dir: "os_path_dirname ''/models/bert-multiclass_metrics.csv'' = ''/models''"
    by (simp add: os_path_dirname_def)
  have "''/models'' \<in> dirs trained_disk"
    unfolding dirs_trained_disk by simp
  then show ?thesis
    unfolding sample_main [OF a] path
    by (simp add: save_metrics_def to_csv_def dir)
qed

theorem main_average_file_at_absolute_path_witness:
  "main (sample_library reviews10) local_model_args 0 fresh_disk
   = (Inr (),
      trained_disk\<lparr>files := (files trained_disk)(''/models/bert-multiclass_metrics.csv''
                      \<mapsto> AverageTable [perfect_average])\<rparr>) \<and>
   os_path_join ''./evaluation'' (model_id local_model_args @ ''-multiclass_metrics.csv'')
     = ''/models/bert-multiclass_metrics.csv''"
proof -
  have a: "multiclass local_model_args" "model_id local_model_args \<noteq> []"
    "hd (model_id local_model_args) = CHR ''/''"
    by (simp_all add: local_model_args_def)
  from main_average_file_at_absolute_path [OF local_model_run a] have
    "os_path_join ''./evaluation'' (model_id local_model_args @ ''-multiclass_metrics.csv'')
       = model_id local_model_args @ ''-multiclass_metrics.csv''"
    by blast
  then have "os_path_join ''./evaluation'' (model_id local_model_args @ ''-multiclass_metrics.csv'')
     = ''/models/bert-multiclass_metrics.csv''"
    by (simp add: local_model_args_def)
  with local_model_run show ?thesis by simp
qed

text \<open>
  For a model id of the hub, with a slash inside, the file name points into a directory
  \<^verbatim>\<open>./evaluation/google-bert\<close> that nothing has created: after the ten folds the write of
  the averages raises \<^verbatim>\<open>OSError\<close>.
\<close>

lemma hub_model_run:
  "main (sample_library reviews10) hub_model_args 0 fresh_disk = (Inl OSError, trained_disk)"
proof -
  have a: "multiclass hub_model_args" "input_csv hub_model_args = ''reviews.csv''"
    by (simp_all add: hub_model_args_def)
  have path: "os_path_join ''./evaluation'' (model_id hub_model_args @ ''-multiclass_metrics.csv'')
      = ''./evaluation/google-bert/bert-base-uncased-multiclass_metrics.csv''"
    by (simp add: os_path_join_def hub_model_args_def)
  have dir: "os_path_dirname ''./evaluation/google-bert/bert-base-uncased-multiclass_metrics.csv''
      = ''./evaluation/google-bert''"
    by (simp add: os_path_dirname_def)
  have "''./evaluation/google-bert'' \<notin> dirs trained_disk"
    unfolding dirs_trained_disk by auto
  then show ?thesis
    unfolding sample_main [OF a] path
    by (simp add: save_metrics_def to_csv_def dir)
qed

end
